theory Spec2Isabelle
  imports Complex_Main "HOL-Library.Word"
begin

section \<open>Time, configuration and audio chunks\<close>

text \<open>
  Go's \<^verbatim>\<open>time.Duration\<close> is a signed count of nanoseconds. It is modelled as \<open>int\<close>;
  no duration of a voicemail greeting comes near the 64-bit range. Go's \<^verbatim>\<open>float64\<close> is
  modelled as \<open>real\<close>: the properties below depend on comparisons of sample energies
  with thresholds, not on rounding.
\<close>

type_synonym duration = int

definition Millisecond :: duration where
  "Millisecond = 1000000"

definition Second :: duration where
  "Second = 1000000000"

text \<open>Go's integer division truncates towards zero; a zero divisor panics (\<open>None\<close>).\<close>

definition go_div :: "int \<Rightarrow> int \<Rightarrow> int option" where
  "go_div a b = (if b = 0 then None else Some (sgn a * sgn b * (\<bar>a\<bar> div \<bar>b\<bar>)))"

text \<open>Go's conversion of a \<^verbatim>\<open>float64\<close> to an integer drops the fraction.\<close>

definition go_trunc :: "real \<Rightarrow> int" where
  "go_trunc x = (if 0 \<le> x then \<lfloor>x\<rfloor> else \<lceil>x\<rceil>)"

text \<open>\<^verbatim>\<open>config.Config\<close> (internal/config/config.go).\<close>

record Config =
  ChunkDuration :: duration
  SampleRate :: int
  BeepMinFreq :: real
  BeepMaxFreq :: real
  BeepMinDuration :: duration
  BeepMinAmplitude :: real
  SilenceThreshold :: real
  SilenceMinDur :: duration
  BeepWaitTimeout :: duration
  DeepgramAPIKey :: string
  EnableSTT :: bool
  EndPhrases :: "string list"

text \<open>\<^verbatim>\<open>DefaultConfig\<close>; the environment variable it reads is the argument.\<close>

definition DefaultConfig :: "string \<Rightarrow> Config" where
  "DefaultConfig apiKey =
     \<lparr> ChunkDuration = 20 * Millisecond,
       SampleRate = 16000,
       BeepMinFreq = 600,
       BeepMaxFreq = 2500,
       BeepMinDuration = 300 * Millisecond,
       BeepMinAmplitude = 2 / 100,
       SilenceThreshold = 1 / 100,
       SilenceMinDur = 500 * Millisecond,
       BeepWaitTimeout = 2 * Second,
       DeepgramAPIKey = apiKey,
       EnableSTT = (apiKey \<noteq> []),
       EndPhrases =
         [''after the beep'', ''after the tone'', ''leave a message'', ''leave your message'',
          ''leave your name'', ''leave your number'', ''record your message'', ''at the tone'',
          ''at the beep'', ''please leave'', ''brief message'', ''please leave a message'',
          ''you may leave'', ''record a message'', ''your message after''] \<rparr>"

text \<open>\<^verbatim>\<open>audio.AudioChunk\<close> (internal/audio/streamer.go).\<close>

record AudioChunk =
  Samples :: "real list"
  Timestamp :: duration
  Duration :: duration

section \<open>Chunk source\<close>

text \<open>
  \<^verbatim>\<open>NewStreamer\<close> computes the number of samples of a chunk as the product of the sample
  rate and the chunk duration in seconds, converted to an integer.
\<close>

definition samplesPerChunk :: "Config \<Rightarrow> int \<Rightarrow> int" where
  "samplesPerChunk cfg rate =
     go_trunc (real_of_int rate * (real_of_int (ChunkDuration cfg) / 1000000000))"

text \<open>
  The time by which \<^verbatim>\<open>StreamWithPacing\<close> advances \<^verbatim>\<open>currentTime\<close> after a chunk of
  \<open>n\<close> samples: \<^verbatim>\<open>time.Duration(float64(len(samples))/float64(s.wav.SampleRate())*1e9)\<close>.
\<close>

definition actualDuration :: "int \<Rightarrow> nat \<Rightarrow> duration" where
  "actualDuration rate n = go_trunc (real n / real_of_int rate * 1000000000)"

text \<open>
  The loop of \<^verbatim>\<open>StreamWithPacing\<close>, over the sample blocks that the successive calls of
  \<^verbatim>\<open>ReadSamples\<close> return: an empty block ends the stream; otherwise a chunk is sent with
  the current time as its timestamp and the configured chunk duration as its duration,
  and the current time advances by the actual duration of the block.
\<close>

fun StreamWithPacing :: "Config \<Rightarrow> int \<Rightarrow> duration \<Rightarrow> real list list \<Rightarrow> AudioChunk list" where
  "StreamWithPacing cfg rate currentTime [] = []"
| "StreamWithPacing cfg rate currentTime (samples # reads) =
     (if samples = [] then []
      else \<lparr> Samples = samples, Timestamp = currentTime, Duration = ChunkDuration cfg \<rparr>
             # StreamWithPacing cfg rate (currentTime + actualDuration rate (length samples)) reads)"

section \<open>Silence detector\<close>

record SilenceEvent =
  StartTime_s :: duration
  EndTime_s :: duration
  Duration_s :: duration
  Confirmed :: bool

text \<open>
  \<^verbatim>\<open>SilenceDetector\<close>: the \<^verbatim>\<open>config\<close> pointer of the Go struct is passed to each
  operation as an argument.
\<close>

record SilenceDetector =
  silenceStart :: duration
  inSilence :: bool
  hadSpeech :: bool
  speechThreshold :: real
  potentialEndTime :: duration
  confirmedEnd :: bool
  lastSpeechTime :: duration
  speechAfterSilence :: int

definition NewSilenceDetector :: "Config \<Rightarrow> SilenceDetector" where
  "NewSilenceDetector cfg =
     \<lparr> silenceStart = 0, inSilence = False, hadSpeech = False,
       speechThreshold = SilenceThreshold cfg * 3,
       potentialEndTime = 0, confirmedEnd = False, lastSpeechTime = 0,
       speechAfterSilence = 0 \<rparr>"

definition calculateRMS :: "real list \<Rightarrow> real" where
  "calculateRMS samples =
     (if length samples = 0 then 0
      else sqrt (sum_list (map (\<lambda>s. s * s) samples) / real (length samples)))"

definition isSilent :: "Config \<Rightarrow> AudioChunk \<Rightarrow> bool" where
  "isSilent cfg chunk = (calculateRMS (Samples chunk) < SilenceThreshold cfg)"

definition isSpeech :: "SilenceDetector \<Rightarrow> AudioChunk \<Rightarrow> bool" where
  "isSpeech d chunk = (calculateRMS (Samples chunk) \<ge> speechThreshold d)"

text \<open>
  \<^verbatim>\<open>SilenceDetector.Process\<close>: the returned pair is the event (\<open>None\<close> for \<^verbatim>\<open>nil\<close>) and
  the detector after the call.
\<close>

definition SilenceDetector_Process ::
  "Config \<Rightarrow> SilenceDetector \<Rightarrow> AudioChunk \<Rightarrow> SilenceEvent option \<times> SilenceDetector" where
  "SilenceDetector_Process cfg d chunk =
     (let currentTime = Timestamp chunk + Duration chunk;
          d1 = (if isSpeech d chunk
                then d\<lparr> hadSpeech := True, lastSpeechTime := currentTime,
                        speechAfterSilence :=
                          (if potentialEndTime d > 0 \<and> \<not> confirmedEnd d
                           then speechAfterSilence d + 1 else speechAfterSilence d) \<rparr>
                else d)
      in if isSilent cfg chunk then
           (if \<not> inSilence d1 then
              (None, d1\<lparr> silenceStart := Timestamp chunk, inSilence := True \<rparr>)
            else
              (let elapsed = currentTime - silenceStart d1
               in if hadSpeech d1 \<and> elapsed \<ge> SilenceMinDur cfg then
                    (let d2 = (if potentialEndTime d1 = 0
                               then d1\<lparr> potentialEndTime := silenceStart d1 \<rparr> else d1);
                         sustainedDuration = currentTime - potentialEndTime d2;
                         d3 = (if sustainedDuration \<ge> 2 * Second
                               then d2\<lparr> confirmedEnd := True \<rparr> else d2)
                     in (Some \<lparr> StartTime_s = silenceStart d3, EndTime_s = currentTime,
                                 Duration_s = elapsed, Confirmed = confirmedEnd d3 \<rparr>, d3))
                  else (None, d1)))
         else
           (let d2 = (if inSilence d1 \<and> currentTime - silenceStart d1 < 2 * Second
                      then d1\<lparr> potentialEndTime := 0, confirmedEnd := False,
                               speechAfterSilence := 0 \<rparr>
                      else d1)
            in (None, d2\<lparr> inSilence := False \<rparr>)))"

text \<open>The detector after a sequence of chunks, and the events it returned on the way.\<close>

fun SilenceDetector_run ::
  "Config \<Rightarrow> SilenceDetector \<Rightarrow> AudioChunk list \<Rightarrow> SilenceDetector" where
  "SilenceDetector_run cfg d [] = d"
| "SilenceDetector_run cfg d (c # cs) =
     SilenceDetector_run cfg (snd (SilenceDetector_Process cfg d c)) cs"

fun SilenceDetector_events ::
  "Config \<Rightarrow> SilenceDetector \<Rightarrow> AudioChunk list \<Rightarrow> SilenceEvent option list" where
  "SilenceDetector_events cfg d [] = []"
| "SilenceDetector_events cfg d (c # cs) =
     fst (SilenceDetector_Process cfg d c)
       # SilenceDetector_events cfg (snd (SilenceDetector_Process cfg d c)) cs"

section \<open>Beep detector\<close>

record BeepEvent =
  StartTime :: duration
  EndTime :: duration
  Frequency :: real
  Amplitude :: real

record BeepDetector =
  sampleRate :: int
  beepStartTime :: duration
  beepActive :: bool
  beepFrequency :: real
  beepAmplitude :: real
  consecutiveHits :: int
  minHits :: int
  allBeeps :: "BeepEvent list"

text \<open>
  \<^verbatim>\<open>NewBeepDetector\<close>. The quotient of the two durations is an integer division;
  a zero \<^verbatim>\<open>ChunkDuration\<close> panics, which is the result \<open>None\<close>.
\<close>

definition NewBeepDetector :: "Config \<Rightarrow> int \<Rightarrow> BeepDetector option" where
  "NewBeepDetector cfg rate =
     (case go_div (150 * Millisecond) (ChunkDuration cfg) of
        None \<Rightarrow> None
      | Some q \<Rightarrow>
          Some \<lparr> sampleRate = rate, beepStartTime = 0, beepActive = False,
                 beepFrequency = 0, beepAmplitude = 0, consecutiveHits = 0,
                 minHits = (if q < 5 then 5 else q), allBeeps = [] \<rparr>)"

text \<open>
  The spectral analysis \<^verbatim>\<open>analyzeForBeep\<close> (Hann window, radix-2 FFT, peak search in
  the band) is floating-point signal processing. It is a parameter of the model: a
  function from the configuration, the sample rate and the samples to the dominant
  frequency, the amplitude and the tone flag. Every property below holds for every
  such function.
\<close>

type_synonym analyzer = "Config \<Rightarrow> int \<Rightarrow> real list \<Rightarrow> real \<times> real \<times> bool"

text \<open>\<^verbatim>\<open>reset\<close>.\<close>

definition BeepDetector_reset :: "BeepDetector \<Rightarrow> BeepDetector" where
  "BeepDetector_reset d =
     d\<lparr> beepActive := False, consecutiveHits := 0, beepFrequency := 0, beepAmplitude := 0 \<rparr>"

text \<open>
  The frequency-stability test \<^verbatim>\<open>math.Abs(freq-d.beepFrequency) / d.beepFrequency > 0.15\<close>.
  With a zero reference the floating-point quotient is infinite for a nonzero numerator
  (the test succeeds) and not a number for a zero numerator (the test fails).
\<close>

definition freqDeviates :: "real \<Rightarrow> real \<Rightarrow> bool" where
  "freqDeviates freq ref =
     (if ref = 0 then freq \<noteq> 0 else \<bar>freq - ref\<bar> / ref > 15 / 100)"

text \<open>The local variable \<^verbatim>\<open>isBeepLike\<close> of \<^verbatim>\<open>BeepDetector.Process\<close>.\<close>

definition isBeepLike :: "analyzer \<Rightarrow> Config \<Rightarrow> BeepDetector \<Rightarrow> AudioChunk \<Rightarrow> bool" where
  "isBeepLike analyzeForBeep cfg d chunk =
     (case analyzeForBeep cfg (sampleRate d) (Samples chunk) of (freq, amp, isTone) \<Rightarrow>
        (let like = (freq \<ge> BeepMinFreq cfg \<and> freq \<le> BeepMaxFreq cfg \<and>
                     amp \<ge> BeepMinAmplitude cfg \<and> isTone)
         in if like \<and> beepActive d then \<not> freqDeviates freq (beepFrequency d) else like))"

text \<open>\<^verbatim>\<open>BeepDetector.Process\<close>: the event (\<open>None\<close> for \<^verbatim>\<open>nil\<close>) and the detector after the call.\<close>

definition BeepDetector_Process ::
  "analyzer \<Rightarrow> Config \<Rightarrow> BeepDetector \<Rightarrow> AudioChunk \<Rightarrow> BeepEvent option \<times> BeepDetector" where
  "BeepDetector_Process analyzeForBeep cfg d chunk =
     (if length (Samples chunk) < 64 then (None, d)
      else
        (case analyzeForBeep cfg (sampleRate d) (Samples chunk) of (freq, amp, isTone) \<Rightarrow>
           if isBeepLike analyzeForBeep cfg d chunk then
             (let d1 = (if \<not> beepActive d
                        then d\<lparr> beepStartTime := Timestamp chunk, beepFrequency := freq,
                                beepAmplitude := amp \<rparr>
                        else d);
                  d2 = d1\<lparr> consecutiveHits := consecutiveHits d1 + 1, beepActive := True \<rparr>
              in (None, d2\<lparr> beepFrequency := beepFrequency d2 * (8 / 10) + freq * (2 / 10),
                             beepAmplitude := max (beepAmplitude d2) amp \<rparr>))
           else if beepActive d \<and> consecutiveHits d \<ge> minHits d then
             (let event = \<lparr> StartTime = beepStartTime d, EndTime = Timestamp chunk,
                             Frequency = beepFrequency d, Amplitude = beepAmplitude d \<rparr>
              in (Some event, BeepDetector_reset (d\<lparr> allBeeps := allBeeps d @ [event] \<rparr>)))
           else (None, BeepDetector_reset d)))"

text \<open>The detector after a sequence of chunks.\<close>

fun BeepDetector_run ::
  "analyzer \<Rightarrow> Config \<Rightarrow> BeepDetector \<Rightarrow> AudioChunk list \<Rightarrow> BeepDetector" where
  "BeepDetector_run an cfg d [] = d"
| "BeepDetector_run an cfg d (c # cs) =
     BeepDetector_run an cfg (snd (BeepDetector_Process an cfg d c)) cs"

text \<open>The events the detector returns on a sequence of chunks, one entry per chunk.\<close>

fun BeepDetector_events ::
  "analyzer \<Rightarrow> Config \<Rightarrow> BeepDetector \<Rightarrow> AudioChunk list \<Rightarrow> BeepEvent option list" where
  "BeepDetector_events an cfg d [] = []"
| "BeepDetector_events an cfg d (c # cs) =
     fst (BeepDetector_Process an cfg d c)
       # BeepDetector_events an cfg (snd (BeepDetector_Process an cfg d c)) cs"

section \<open>Phrase detector\<close>

text \<open>
  Strings are lists of bytes. \<^verbatim>\<open>strings.ToLower\<close> is modelled on ASCII letters, which
  is what the configured end phrases consist of.
\<close>

definition to_lower_char :: "char \<Rightarrow> char" where
  "to_lower_char c =
     (case map_of (zip ''ABCDEFGHIJKLMNOPQRSTUVWXYZ'' ''abcdefghijklmnopqrstuvwxyz'') c of
        Some l \<Rightarrow> l | None \<Rightarrow> c)"

definition ToLower :: "string \<Rightarrow> string" where
  "ToLower s = map to_lower_char s"

text \<open>\<^verbatim>\<open>strings.HasPrefix\<close> and \<^verbatim>\<open>strings.Contains\<close>.\<close>

fun HasPrefix :: "string \<Rightarrow> string \<Rightarrow> bool" where
  "HasPrefix s [] = True"
| "HasPrefix [] (p # ps) = False"
| "HasPrefix (c # s) (p # ps) = (c = p \<and> HasPrefix s ps)"

fun Contains :: "string \<Rightarrow> string \<Rightarrow> bool" where
  "Contains [] sub = (sub = [])"
| "Contains (c # s) sub = (HasPrefix (c # s) sub \<or> Contains s sub)"

text \<open>
  Each pattern is the regular expression \<^verbatim>\<open>(?i)\<close> followed by the quoted phrase: it
  matches a text that contains the phrase, letter case ignored.
\<close>

definition MatchString :: "string \<Rightarrow> string \<Rightarrow> bool" where
  "MatchString phrase text = Contains (ToLower text) (ToLower phrase)"

record PhraseEvent =
  Timestamp_p :: duration
  Phrase :: string
  FullText :: string

text \<open>
  \<^verbatim>\<open>PhraseDetector\<close>: the compiled patterns are determined by the configured phrases,
  which each operation takes from the configuration.
\<close>

record PhraseDetector =
  detected :: "PhraseEvent option"

definition NewPhraseDetector :: "Config \<Rightarrow> PhraseDetector" where
  "NewPhraseDetector cfg = \<lparr> detected = None \<rparr>"

text \<open>
  \<^verbatim>\<open>PhraseDetector.Process\<close>: the loop returns at the first pattern, in the order of
  the configuration, that matches the lowercased text.
\<close>

definition PhraseDetector_Process ::
  "Config \<Rightarrow> PhraseDetector \<Rightarrow> string \<Rightarrow> duration \<Rightarrow> PhraseEvent option \<times> PhraseDetector" where
  "PhraseDetector_Process cfg d text timestamp =
     (let text' = ToLower text
      in case find (\<lambda>phrase. MatchString phrase text') (EndPhrases cfg) of
           None \<Rightarrow> (None, d)
         | Some phrase \<Rightarrow>
             (let event = \<lparr> Timestamp_p = timestamp, Phrase = phrase, FullText = text' \<rparr>
              in (Some event, d\<lparr> detected := Some event \<rparr>)))"

definition GetDetected :: "PhraseDetector \<Rightarrow> PhraseEvent option" where
  "GetDetected d = detected d"

section \<open>Speech-to-text adapter\<close>

record TranscriptEvent =
  Text :: string
  Timestamp_t :: duration
  IsFinal :: bool

text \<open>
  The outcome of the two calls \<^verbatim>\<open>Connect\<close> makes to the vendor's client library
  (\<^verbatim>\<open>NewWSUsingCallback\<close>, then \<^verbatim>\<open>dgClient.Connect\<close>) is the state of the backend.
\<close>

datatype stt_backend = ClientCreationFails | WebSocketRefused | Reachable

datatype error =
    StreamerFailed
  | SttDisabled
  | SttClientFailed
  | SttConnectFailed
  | DivideByZero

text \<open>\<^verbatim>\<open>SpeechToText.Connect\<close>: \<open>None\<close> is the \<^verbatim>\<open>nil\<close> error.\<close>

definition Connect :: "Config \<Rightarrow> stt_backend \<Rightarrow> error option" where
  "Connect cfg backend =
     (if \<not> EnableSTT cfg then Some SttDisabled
      else case backend of
             ClientCreationFails \<Rightarrow> Some SttClientFailed
           | WebSocketRefused \<Rightarrow> Some SttConnectFailed
           | Reachable \<Rightarrow> None)"

definition IsEnabled :: "Config \<Rightarrow> bool" where
  "IsEnabled cfg = EnableSTT cfg"

section \<open>Decision engine\<close>

text \<open>
  The \<^verbatim>\<open>Details\<close> of a signal are formatted strings in the source; the model keeps the
  values they are formatted from.
\<close>

datatype details =
    BeepDetails real duration
  | SilenceDetails duration
  | IntermediateBeep
  | PhraseDetails string

record Signal =
  Type :: string
  Timestamp_sig :: duration
  Details :: details

text \<open>
  The reason strings of the source, by the codes the specification gives them:
  \<open>BEEP_CONFIRMED\<close> is ``Beep detected and confirmed (no speech resumed) - dropping after
  beep'', \<open>PHRASE_SILENCE\<close> is ``End phrase + silence detected (no beep expected) -
  dropping'', \<open>PHRASE_BEEP_TIMEOUT\<close> is ``Phrase indicated beep expected, waited 5s -
  dropping'', \<open>SILENCE_TIMEOUT w\<close> is ``Confirmed silence, waited \<open>w\<close> for beep -
  dropping'', \<open>BEEP_AT_END\<close> is ``Beep detected at end - dropping after beep'',
  \<open>SILENCE_NO_BEEP\<close> is ``Silence after speech - no beep detected'', \<open>PHRASE_ONLY\<close> is
  ``End phrase detected'', \<open>FALLBACK_90PCT\<close> is ``No clear signal - using fallback (90% of
  duration)'', and \<open>NO_REASON\<close> is the empty string.
\<close>

datatype reason =
    BEEP_CONFIRMED
  | PHRASE_SILENCE
  | PHRASE_BEEP_TIMEOUT
  | SILENCE_TIMEOUT duration
  | BEEP_AT_END
  | SILENCE_NO_BEEP
  | PHRASE_ONLY
  | FALLBACK_90PCT
  | NO_REASON

record Result =
  RecommendedDropTime :: duration
  Reason :: reason
  Signals :: "Signal list"
  Transcript :: string
  DecisionMadeAt :: duration
  DeadAir :: duration

definition PostBeepVerifyDuration :: duration where
  "PostBeepVerifyDuration = 500 * Millisecond"

text \<open>
  \<^verbatim>\<open>DecisionEngine\<close>. The shared configuration is an argument of each operation; the
  speech-to-text client has no state the decisions read.
\<close>

record DecisionEngine =
  beepDetector :: BeepDetector
  silenceDetector :: SilenceDetector
  phraseDetector :: PhraseDetector
  signals :: "Signal list"
  transcript :: string
  beepDetected :: "BeepEvent option"
  beepConfirmedAt :: duration
  phraseFound :: bool
  expectsBeep :: bool
  phraseTime :: duration
  firstSilenceAt :: duration
  decisionMade :: bool
  decisionResult :: "Result option"

text \<open>\<^verbatim>\<open>NewDecisionEngine\<close>; it fails where \<^verbatim>\<open>NewBeepDetector\<close> panics.\<close>

definition NewDecisionEngine :: "Config \<Rightarrow> int \<Rightarrow> DecisionEngine option" where
  "NewDecisionEngine cfg rate =
     (case NewBeepDetector cfg rate of
        None \<Rightarrow> None
      | Some bd \<Rightarrow>
          Some \<lparr> beepDetector = bd,
                 silenceDetector = NewSilenceDetector cfg,
                 phraseDetector = NewPhraseDetector cfg,
                 signals = [], transcript = [], beepDetected = None, beepConfirmedAt = 0,
                 phraseFound = False, expectsBeep = False, phraseTime = 0,
                 firstSilenceAt = 0, decisionMade = False, decisionResult = None \<rparr>)"

text \<open>
  \<^verbatim>\<open>processChunk\<close>, in the order of the source: beep detector, silence detector, beep
  verification. Forwarding the samples to the speech-to-text client changes nothing the
  engine reads and is left out.
\<close>

definition recordBeep :: "DecisionEngine \<Rightarrow> BeepEvent option \<Rightarrow> DecisionEngine" where
  "recordBeep e beepEvent =
     (case beepEvent of
        None \<Rightarrow> e
      | Some b \<Rightarrow>
          e\<lparr> beepDetected := Some b, beepConfirmedAt := 0,
              signals := signals e @
                [\<lparr> Type = ''beep'', Timestamp_sig = EndTime b,
                   Details = BeepDetails (Frequency b) (EndTime b - StartTime b) \<rparr>] \<rparr>)"

definition recordSilence :: "DecisionEngine \<Rightarrow> SilenceEvent option \<Rightarrow> DecisionEngine" where
  "recordSilence e silenceEvent =
     (case silenceEvent of
        None \<Rightarrow> e
      | Some s \<Rightarrow>
          if Confirmed s \<and> firstSilenceAt e = 0 then
            e\<lparr> firstSilenceAt := StartTime_s s,
                signals := signals e @
                  [\<lparr> Type = ''silence'', Timestamp_sig = StartTime_s s,
                     Details = SilenceDetails (Duration_s s) \<rparr>] \<rparr>
          else e)"

definition verifyBeep ::
  "DecisionEngine \<Rightarrow> AudioChunk \<Rightarrow> SilenceEvent option \<Rightarrow> DecisionEngine" where
  "verifyBeep e chunk silenceEvent =
     (case beepDetected e of
        None \<Rightarrow> e
      | Some b \<Rightarrow>
          if beepConfirmedAt e = 0 then
            (let timeSinceBeep = Timestamp chunk - EndTime b
             in if timeSinceBeep > 0 \<and> timeSinceBeep < PostBeepVerifyDuration then
                  (if silenceEvent = None \<and> \<not> inSilence (silenceDetector e) then
                     e\<lparr> signals := signals e @
                           [\<lparr> Type = ''beep'', Timestamp_sig = Timestamp chunk,
                              Details = IntermediateBeep \<rparr>],
                         beepDetected := None \<rparr>
                   else e)
                else if timeSinceBeep \<ge> PostBeepVerifyDuration then
                  e\<lparr> beepConfirmedAt := Timestamp chunk \<rparr>
                else e)
          else e)"

definition processChunk ::
  "analyzer \<Rightarrow> Config \<Rightarrow> DecisionEngine \<Rightarrow> AudioChunk \<Rightarrow> DecisionEngine" where
  "processChunk an cfg e chunk =
     (let beepStep = BeepDetector_Process an cfg (beepDetector e) chunk;
          e1 = recordBeep (e\<lparr> beepDetector := snd beepStep \<rparr>) (fst beepStep);
          silenceStep = SilenceDetector_Process cfg (silenceDetector e1) chunk;
          e2 = recordSilence (e1\<lparr> silenceDetector := snd silenceStep \<rparr>) (fst silenceStep)
      in verifyBeep e2 chunk (fst silenceStep))"

text \<open>\<^verbatim>\<open>makeDecision\<close>.\<close>

definition makeDecision ::
  "DecisionEngine \<Rightarrow> duration \<Rightarrow> reason \<Rightarrow> duration \<Rightarrow> DecisionEngine" where
  "makeDecision e dropTime why decisionTime =
     (let deadAir =
            (if firstSilenceAt e > 0 then decisionTime - firstSilenceAt e
             else case beepDetected e of
                    Some b \<Rightarrow> decisionTime - EndTime b
                  | None \<Rightarrow> 0)
      in e\<lparr> decisionMade := True,
             decisionResult :=
               Some \<lparr> RecommendedDropTime = dropTime, Reason = why, Signals = signals e,
                      Transcript = transcript e, DecisionMadeAt = decisionTime,
                      DeadAir = deadAir \<rparr> \<rparr>)"

text \<open>\<^verbatim>\<open>checkForDecision\<close>: the four priority rules, the first that applies decides.\<close>

definition rule1 :: "DecisionEngine \<Rightarrow> bool" where
  "rule1 e = (beepDetected e \<noteq> None \<and> beepConfirmedAt e > 0)"

definition rule2 :: "DecisionEngine \<Rightarrow> duration \<Rightarrow> bool" where
  "rule2 e currentTime =
     (phraseFound e \<and> firstSilenceAt e > 0 \<and> \<not> expectsBeep e \<and>
      currentTime - firstSilenceAt e \<ge> 1 * Second)"

definition rule3 :: "DecisionEngine \<Rightarrow> duration \<Rightarrow> bool" where
  "rule3 e currentTime =
     (expectsBeep e \<and> firstSilenceAt e > 0 \<and> currentTime - firstSilenceAt e \<ge> 5 * Second)"

definition rule4 :: "Config \<Rightarrow> DecisionEngine \<Rightarrow> duration \<Rightarrow> bool" where
  "rule4 cfg e currentTime =
     (firstSilenceAt e > 0 \<and> hadSpeech (silenceDetector e) \<and> \<not> expectsBeep e \<and>
      currentTime - firstSilenceAt e \<ge> BeepWaitTimeout cfg)"

definition checkForDecision :: "Config \<Rightarrow> DecisionEngine \<Rightarrow> duration \<Rightarrow> DecisionEngine" where
  "checkForDecision cfg e currentTime =
     (if rule1 e then
        (case beepDetected e of
           Some b \<Rightarrow> makeDecision e (EndTime b + 50 * Millisecond) BEEP_CONFIRMED currentTime
         | None \<Rightarrow> e)
      else if rule2 e currentTime then
        makeDecision e (firstSilenceAt e + 200 * Millisecond) PHRASE_SILENCE currentTime
      else if rule3 e currentTime then
        makeDecision e (firstSilenceAt e + 200 * Millisecond) PHRASE_BEEP_TIMEOUT currentTime
      else if rule4 cfg e currentTime then
        makeDecision e (firstSilenceAt e + 200 * Millisecond)
          (SILENCE_TIMEOUT (BeepWaitTimeout cfg)) currentTime
      else e)"

text \<open>
  \<^verbatim>\<open>makeFinalDecision\<close>. The fallback drop time is the product of the total duration,
  as a float, and 0.9, converted back to a duration.
\<close>

definition makeFinalDecision :: "DecisionEngine \<Rightarrow> duration \<Rightarrow> DecisionEngine" where
  "makeFinalDecision e totalDuration =
     (let choice =
            (case beepDetected e of
               Some b \<Rightarrow> (EndTime b + 50 * Millisecond, BEEP_AT_END)
             | None \<Rightarrow>
                 if firstSilenceAt e > 0 \<and> hadSpeech (silenceDetector e) then
                   (firstSilenceAt e + 200 * Millisecond, SILENCE_NO_BEEP)
                 else if phraseFound e then
                   (case GetDetected (phraseDetector e) of
                      Some phraseEvent \<Rightarrow> (Timestamp_p phraseEvent + 1 * Second, PHRASE_ONLY)
                    | None \<Rightarrow> (0, NO_REASON))
                 else (go_trunc (real_of_int totalDuration * (9 / 10)), FALLBACK_90PCT));
          deadAir = (if firstSilenceAt e > 0 then totalDuration - firstSilenceAt e else 0)
      in e\<lparr> decisionResult :=
               Some \<lparr> RecommendedDropTime = fst choice, Reason = snd choice,
                      Signals = signals e, Transcript = transcript e,
                      DecisionMadeAt = totalDuration, DeadAir = deadAir \<rparr> \<rparr>)"

text \<open>The body of the loop of \<^verbatim>\<open>processTranscripts\<close>, for one transcript event.\<close>

definition processTranscript :: "Config \<Rightarrow> DecisionEngine \<Rightarrow> TranscriptEvent \<Rightarrow> DecisionEngine" where
  "processTranscript cfg e event =
     (let e1 = e\<lparr> transcript := transcript e @ '' '' @ Text event \<rparr>;
          step = PhraseDetector_Process cfg (phraseDetector e1) (Text event) (Timestamp_t event);
          e2 = e1\<lparr> phraseDetector := snd step \<rparr>
      in case fst step of
           None \<Rightarrow> e2
         | Some phraseEvent \<Rightarrow>
             (let phrase = ToLower (Phrase phraseEvent)
              in e2\<lparr> phraseFound := True,
                      phraseTime := (if phraseTime e2 = 0 then Timestamp_p phraseEvent
                                     else phraseTime e2),
                      expectsBeep := (if Contains phrase ''beep'' \<or> Contains phrase ''tone''
                                      then True else expectsBeep e2),
                      signals := signals e2 @
                        [\<lparr> Type = ''phrase'', Timestamp_sig = Timestamp_p phraseEvent,
                           Details = PhraseDetails (Phrase phraseEvent) \<rparr>] \<rparr>))"

text \<open>
  The input of a run: the chunks of the stream, in order, and between them the transcript
  events in the order the transcript task takes them from the queue. A transcript event
  takes effect between two chunks.
\<close>

datatype stream_item = Chunk AudioChunk | TranscriptArrives TranscriptEvent

text \<open>
  After the loop over the chunks has been left, the transcript task still runs until
  \<^verbatim>\<open>Process\<close> returns; no further chunk is read.
\<close>

fun drain :: "Config \<Rightarrow> bool \<Rightarrow> DecisionEngine \<Rightarrow> stream_item list \<Rightarrow> DecisionEngine" where
  "drain cfg sttEnabled e [] = e"
| "drain cfg sttEnabled e (Chunk c # xs) = drain cfg sttEnabled e xs"
| "drain cfg sttEnabled e (TranscriptArrives ev # xs) =
     drain cfg sttEnabled (if sttEnabled then processTranscript cfg e ev else e) xs"

text \<open>
  The loop of \<^verbatim>\<open>Process\<close> over the stream. For each chunk: \<^verbatim>\<open>lastChunkTime\<close> is set,
  \<^verbatim>\<open>processChunk\<close> runs, the loop is left if \<^verbatim>\<open>decisionMade\<close> is set, and otherwise
  \<^verbatim>\<open>checkForDecision\<close> runs. The result is the engine and \<^verbatim>\<open>lastChunkTime\<close>.
\<close>

fun stream_loop ::
  "analyzer \<Rightarrow> Config \<Rightarrow> bool \<Rightarrow> DecisionEngine \<Rightarrow> duration \<Rightarrow> stream_item list
     \<Rightarrow> DecisionEngine \<times> duration" where
  "stream_loop an cfg sttEnabled e lastChunkTime [] = (e, lastChunkTime)"
| "stream_loop an cfg sttEnabled e lastChunkTime (TranscriptArrives ev # xs) =
     stream_loop an cfg sttEnabled
       (if sttEnabled then processTranscript cfg e ev else e) lastChunkTime xs"
| "stream_loop an cfg sttEnabled e lastChunkTime (Chunk c # xs) =
     (let e1 = processChunk an cfg e c
      in if decisionMade e1 then (drain cfg sttEnabled e1 xs, Timestamp c + Duration c)
         else stream_loop an cfg sttEnabled
                (checkForDecision cfg e1 (Timestamp c + Duration c))
                (Timestamp c + Duration c) xs)"

text \<open>
  \<^verbatim>\<open>DecisionEngine.Process\<close>. The streamer is the result of \<^verbatim>\<open>NewStreamer\<close>: an error,
  or the sample rate of the file and the stream. The result is the pair the source
  returns: an error, or the pointer \<^verbatim>\<open>decisionResult\<close> (\<open>None\<close> for \<^verbatim>\<open>nil\<close>). The
  engine at the end of the run is kept beside the result.
\<close>

definition Process_run ::
  "analyzer \<Rightarrow> Config \<Rightarrow> stt_backend \<Rightarrow> DecisionEngine \<Rightarrow> int \<Rightarrow> stream_item list
     \<Rightarrow> error + DecisionEngine" where
  "Process_run an cfg backend e rate items =
     (case NewBeepDetector cfg rate of
        None \<Rightarrow> Inl DivideByZero
      | Some bd \<Rightarrow>
          (let e0 = e\<lparr> beepDetector := bd \<rparr>;
               sttEnabled = (IsEnabled cfg \<and> Connect cfg backend = None);
               loop = stream_loop an cfg sttEnabled e0 0 items
           in Inr (if \<not> decisionMade (fst loop) then makeFinalDecision (fst loop) (snd loop)
                   else fst loop)))"

definition Process ::
  "analyzer \<Rightarrow> Config \<Rightarrow> stt_backend \<Rightarrow> DecisionEngine \<Rightarrow> error + int \<times> stream_item list
     \<Rightarrow> error + Result option" where
  "Process an cfg backend e streamer =
     (case streamer of
        Inl err \<Rightarrow> Inl StreamerFailed
      | Inr (rate, items) \<Rightarrow>
          (case Process_run an cfg backend e rate items of
             Inl err \<Rightarrow> Inl err
           | Inr e' \<Rightarrow> Inr (decisionResult e')))"

section \<open>WAV files\<close>

text \<open>
  A file is its sequence of bytes; an open file is the bytes and the read position.
  Header fields are unsigned little-endian integers of 16 or 32 bits, read as naturals.
\<close>

type_synonym byte = "8 word"

text \<open>\<^verbatim>\<open>binary.LittleEndian\<close>: the value of a byte sequence, least significant byte first.\<close>

fun le :: "byte list \<Rightarrow> nat" where
  "le [] = 0"
| "le (b # bs) = unat b + 256 * le bs"
















section \<open>Auxiliary notions for stating the properties\<close>

text \<open>
  A continuation of a stream in which no chunk interrupts a silent run shorter than two
  seconds, that is, in which the branch of \<^verbatim>\<open>SilenceDetector.Process\<close> that clears
  \<^verbatim>\<open>confirmedEnd\<close> is never taken.
\<close>

fun no_short_interrupt :: "Config \<Rightarrow> SilenceDetector \<Rightarrow> AudioChunk list \<Rightarrow> bool" where
  "no_short_interrupt cfg d [] = True"
| "no_short_interrupt cfg d (c # cs) =
     (\<not> (inSilence d \<and> \<not> isSilent cfg c \<and>
          Timestamp c + Duration c - silenceStart d < 2 * Second) \<and>
      no_short_interrupt cfg (snd (SilenceDetector_Process cfg d c)) cs)"

text \<open>Concrete chunks for the examples: 64 samples of one value, whose RMS is its magnitude.\<close>

definition mk_chunk :: "real \<Rightarrow> duration \<Rightarrow> duration \<Rightarrow> AudioChunk" where
  "mk_chunk x ts dur = \<lparr> Samples = replicate 64 x, Timestamp = ts, Duration = dur \<rparr>"

text \<open>Half a second of speech followed by two seconds of silence, in chunks of 500 ms.\<close>

definition confirmed_run :: "AudioChunk list" where
  "confirmed_run =
     [mk_chunk (1/2) 0 500000000, mk_chunk 0 500000000 500000000,
      mk_chunk 0 1000000000 500000000, mk_chunk 0 1500000000 500000000,
      mk_chunk 0 2000000000 500000000]"

text \<open>
  Timestamps that advance by at least \<open>D\<close> from each chunk to the next; \<open>t\<close> is the least
  timestamp the next chunk may have.
\<close>

fun advances_from :: "duration \<Rightarrow> duration \<Rightarrow> AudioChunk list \<Rightarrow> bool" where
  "advances_from D t [] = True"
| "advances_from D t (c # cs) = (t \<le> Timestamp c \<and> advances_from D (Timestamp c + D) cs)"

definition advances_by :: "duration \<Rightarrow> AudioChunk list \<Rightarrow> bool" where
  "advances_by D cs = (case cs of [] \<Rightarrow> True | c # _ \<Rightarrow> advances_from D (Timestamp c) cs)"

text \<open>
  A stand-in for the spectral analysis in the examples: a chunk whose samples start with
  the value 1/4 is reported as a 1000 Hz tone of amplitude 0.1, any other chunk as no tone.
\<close>

definition marker_analyzer :: analyzer where
  "marker_analyzer cfg rate samples =
     (if samples \<noteq> [] \<and> hd samples = 1 / 4 then (1000, 1 / 10, True) else (0, 0, False))"

text \<open>
  The invariant of the beep detector before a chunk whose timestamp is at least \<open>t\<close>, for
  timestamps that advance by at least \<open>D\<close>: the hits counted so far fit between the
  recorded start and \<open>t\<close>.
\<close>

definition beep_inv :: "duration \<Rightarrow> BeepDetector \<Rightarrow> duration \<Rightarrow> bool" where
  "beep_inv D d t =
     (if beepActive d then 1 \<le> consecutiveHits d \<and> consecutiveHits d * D \<le> t - beepStartTime d
      else consecutiveHits d = 0)"

text \<open>The chunks and the transcript events of a run's input.\<close>

fun chunks_of :: "stream_item list \<Rightarrow> AudioChunk list" where
  "chunks_of [] = []"
| "chunks_of (Chunk c # xs) = c # chunks_of xs"
| "chunks_of (TranscriptArrives ev # xs) = chunks_of xs"

fun transcripts_of :: "stream_item list \<Rightarrow> TranscriptEvent list" where
  "transcripts_of [] = []"
| "transcripts_of (Chunk c # xs) = transcripts_of xs"
| "transcripts_of (TranscriptArrives ev # xs) = ev # transcripts_of xs"

text \<open>
  The total duration \<^verbatim>\<open>Process\<close> passes to \<^verbatim>\<open>makeFinalDecision\<close>: the end of the last
  chunk, and 0 for a stream without chunks.
\<close>

definition total_duration :: "AudioChunk list \<Rightarrow> duration" where
  "total_duration cs = (if cs = [] then 0 else Timestamp (last cs) + Duration (last cs))"

text \<open>A transcript text that contains one of the configured end phrases.\<close>

definition matches_end_phrase :: "Config \<Rightarrow> string \<Rightarrow> bool" where
  "matches_end_phrase cfg text = (\<exists>p \<in> set (EndPhrases cfg). MatchString p (ToLower text))"

text \<open>
  An engine that has seen no evidence: no beep, no confirmed silence, no phrase, no speech,
  and no decision.
\<close>

definition no_evidence :: "DecisionEngine \<Rightarrow> bool" where
  "no_evidence e =
     (beepDetected e = None \<and> firstSilenceAt e = 0 \<and> \<not> phraseFound e \<and> \<not> expectsBeep e \<and>
      \<not> decisionMade e \<and> \<not> hadSpeech (silenceDetector e))"


section \<open>Example streams\<close>

text \<open>
  The examples run the engine on streams of 250 ms chunks of 64 samples (a file sampled
  at 256 Hz), under the default configuration with that chunk duration; \<open>cfg250k\<close> has
  an API key, so that speech-to-text is enabled.
\<close>

definition cfg250 :: Config where
  "cfg250 = (DefaultConfig [])\<lparr> ChunkDuration := 250 * Millisecond \<rparr>"

definition cfg250k :: Config where
  "cfg250k = (DefaultConfig ''key'')\<lparr> ChunkDuration := 250 * Millisecond \<rparr>"

definition detector250 :: BeepDetector where
  "detector250 =
     \<lparr> sampleRate = 256, beepStartTime = 0, beepActive = False, beepFrequency = 0,
       beepAmplitude = 0, consecutiveHits = 0, minHits = 5, allBeeps = [] \<rparr>"

definition engine250 :: DecisionEngine where
  "engine250 =
     \<lparr> beepDetector = detector250,
       silenceDetector =
         \<lparr> silenceStart = 0, inSilence = False, hadSpeech = False, speechThreshold = 3 / 100,
           potentialEndTime = 0, confirmedEnd = False, lastSpeechTime = 0,
           speechAfterSilence = 0 \<rparr>,
       phraseDetector = \<lparr> detected = None \<rparr>,
       signals = [], transcript = [], beepDetected = None, beepConfirmedAt = 0,
       phraseFound = False, expectsBeep = False, phraseTime = 0,
       firstSilenceAt = 0, decisionMade = False, decisionResult = None \<rparr>"

text \<open>The \<open>i\<close>-th chunk of such a stream, all of whose samples are \<open>x\<close>.\<close>

definition chunk250 :: "real \<Rightarrow> int \<Rightarrow> AudioChunk" where
  "chunk250 x i = mk_chunk x (i * 250000000) 250000000"

text \<open>A chunk of speech, then eight silent chunks: rule 4 fires at the end of the ninth chunk.\<close>

definition silence_timeout_stream :: "AudioChunk list" where
  "silence_timeout_stream =
     [chunk250 (1/2) 0, chunk250 0 1, chunk250 0 2, chunk250 0 3, chunk250 0 4,
      chunk250 0 5, chunk250 0 6, chunk250 0 7, chunk250 0 8]"

text \<open>
  Speech, 1.75 s of silence, a tone of five chunks, a chunk of speech, and two silent
  chunks. The tone ends at 3.25 s; the silent run that follows starts at 3.5 s.
\<close>

definition dead_air_stream :: "AudioChunk list" where
  "dead_air_stream =
     [chunk250 (1/2) 0, chunk250 0 1, chunk250 0 2, chunk250 0 3, chunk250 0 4,
      chunk250 0 5, chunk250 0 6, chunk250 0 7,
      chunk250 (1/4) 8, chunk250 (1/4) 9, chunk250 (1/4) 10, chunk250 (1/4) 11,
      chunk250 (1/4) 12, chunk250 (1/2) 13, chunk250 0 14, chunk250 0 15]"

text \<open>The engine after the last chunk of that stream, before the priority rules are checked.\<close>

definition dead_air_state :: DecisionEngine where
  "dead_air_state =
     processChunk marker_analyzer cfg250
       (fst (stream_loop marker_analyzer cfg250 False engine250 0
               (map Chunk (butlast dead_air_stream))))
       (last dead_air_stream)"

text \<open>A tone of five chunks and a chunk of speech, at which the stream ends.\<close>

definition beep_at_end_stream :: "AudioChunk list" where
  "beep_at_end_stream =
     [chunk250 (1/4) 0, chunk250 (1/4) 1, chunk250 (1/4) 2, chunk250 (1/4) 3,
      chunk250 (1/4) 4, chunk250 (1/2) 5]"

text \<open>Two silent chunks with a transcript event between them.\<close>

definition quiet_items :: "stream_item list" where
  "quiet_items =
     [Chunk (chunk250 0 0),
      TranscriptArrives \<lparr> Text = ''Hi'', Timestamp_t = 0, IsFinal = True \<rparr>,
      Chunk (chunk250 0 1)]"


text \<open>
  A file sampled at 11025 Hz under the default configuration: a chunk has 220 samples, and
  the reads return seven blocks reported as a tone and two silent blocks.
\<close>

definition reads11025 :: "real list list" where
  "reads11025 =
     [replicate 220 (1/4), replicate 220 (1/4), replicate 220 (1/4), replicate 220 (1/4),
      replicate 220 (1/4), replicate 220 (1/4), replicate 220 (1/4), replicate 220 0,
      replicate 220 0]"

definition detector11025 :: BeepDetector where
  "detector11025 =
     \<lparr> sampleRate = 11025, beepStartTime = 0, beepActive = False, beepFrequency = 0,
       beepAmplitude = 0, consecutiveHits = 0, minHits = 7, allBeeps = [] \<rparr>"

text \<open>The chunks \<^verbatim>\<open>StreamWithPacing\<close> sends for these reads.\<close>

definition hz11025_stream :: "AudioChunk list" where
  "hz11025_stream = StreamWithPacing (DefaultConfig []) 11025 0 reads11025"

section \<open>Properties of the beep detector's construction\<close>

lemma go_div_pos: "0 < b \<Longrightarrow> 0 \<le> a \<Longrightarrow> go_div a b = Some (a div b)"
  by (simp add: go_div_def sgn_if)

lemma floor_real_div: "\<lfloor>real_of_int a / real_of_int b\<rfloor> = a div b"
  by (rule floor_divide_of_int_eq)

text \<open>
  Claim C2, as amended. For every positive chunk duration, the detector's \<open>minHits\<close>
  is the larger of 5 and the quotient of 150 ms by the chunk duration rounded down
  (Go's integer division), not rounded up. With the default chunk duration of 20 ms
  this is 7.
\<close>

theorem minHits_floor:
  assumes "0 < ChunkDuration cfg"
  shows "\<exists>d. NewBeepDetector cfg rate = Some d \<and>
             minHits d =
               max 5 \<lfloor>real_of_int (150 * Millisecond) / real_of_int (ChunkDuration cfg)\<rfloor>"
proof -
  have q: "go_div (150 * Millisecond) (ChunkDuration cfg) =
             Some (150 * Millisecond div ChunkDuration cfg)"
    using assms by (simp add: go_div_pos Millisecond_def)
  show ?thesis
    unfolding floor_real_div by (simp add: NewBeepDetector_def q max_def)
qed

theorem minHits_floor_witness:
  "0 < ChunkDuration (DefaultConfig []) \<and>
   map_option minHits (NewBeepDetector (DefaultConfig []) 16000) = Some 7"
proof -
  have pos: "0 < ChunkDuration (DefaultConfig [])"
    by (simp add: DefaultConfig_def Millisecond_def)
  from minHits_floor [OF pos, of 16000] obtain d where
    d: "NewBeepDetector (DefaultConfig []) 16000 = Some d"
    and m: "minHits d =
      max 5 \<lfloor>real_of_int (150 * Millisecond) / real_of_int (ChunkDuration (DefaultConfig []))\<rfloor>"
    by blast
  have "minHits d = 7"
    unfolding m floor_real_div by (simp add: DefaultConfig_def Millisecond_def)
  with pos d show ?thesis by simp
qed

text \<open>
  The claim as stated (rounding up, 8 hits at 20 ms) fails on the default configuration:
  the code computes 7 where the claimed formula gives 8.
\<close>

theorem minHits_default_counterexample:
  "map_option minHits (NewBeepDetector (DefaultConfig []) 16000) = Some 7 \<and>
   max 5 \<lceil>real_of_int (150 * Millisecond) / real_of_int (ChunkDuration (DefaultConfig []))\<rceil> = 8"
  by (simp add: NewBeepDetector_def go_div_def DefaultConfig_def Millisecond_def)

section \<open>Properties of the silence detector\<close>

lemma calculateRMS_nonneg: "0 \<le> calculateRMS xs"
proof -
  have "0 \<le> sum_list (map (\<lambda>s. s * s) xs)"
    by (rule sum_list_nonneg) auto
  then show ?thesis by (simp add: calculateRMS_def)
qed

lemma calculateRMS_replicate: "0 < n \<Longrightarrow> calculateRMS (replicate n x) = \<bar>x\<bar>"
  by (simp add: calculateRMS_def sum_list_replicate map_replicate_const real_sqrt_mult_self)

lemma mk_chunk_simps:
  "calculateRMS (Samples (mk_chunk x ts dur)) = \<bar>x\<bar>"
  "Timestamp (mk_chunk x ts dur) = ts"
  "Duration (mk_chunk x ts dur) = dur"
  "length (Samples (mk_chunk x ts dur)) = 64"
  by (simp_all add: mk_chunk_def calculateRMS_replicate)

lemmas silence_eval =
  SilenceDetector_Process_def Let_def isSilent_def isSpeech_def mk_chunk_simps
  DefaultConfig_def Second_def Millisecond_def NewSilenceDetector_def

text \<open>A chunk below the silence threshold is never at or above three times the threshold.\<close>

lemma silent_not_speech:
  "speechThreshold d = SilenceThreshold cfg * 3 \<Longrightarrow> isSilent cfg c \<Longrightarrow> \<not> isSpeech d c"
  using calculateRMS_nonneg [of "Samples c"] by (simp add: isSilent_def isSpeech_def)

lemma Process_speechThreshold:
  "speechThreshold (snd (SilenceDetector_Process cfg d c)) = speechThreshold d"
  by (simp add: SilenceDetector_Process_def Let_def)

lemma Process_hadSpeech:
  "hadSpeech (snd (SilenceDetector_Process cfg d c)) = (hadSpeech d \<or> isSpeech d c)"
  by (simp add: SilenceDetector_Process_def Let_def)

lemma Process_event_hadSpeech:
  "fst (SilenceDetector_Process cfg d c) = Some ev \<Longrightarrow>
     (hadSpeech d \<or> isSpeech d c) \<and> isSilent cfg c"
  by (simp add: SilenceDetector_Process_def Let_def split: if_splits)

lemma run_speechThreshold:
  "speechThreshold (SilenceDetector_run cfg d cs) = speechThreshold d"
  by (induction cs arbitrary: d) (simp_all add: Process_speechThreshold)

lemma run_hadSpeech:
  "hadSpeech (SilenceDetector_run cfg d cs) \<Longrightarrow>
     hadSpeech d \<or> (\<exists>c \<in> set cs. speechThreshold d \<le> calculateRMS (Samples c))"
proof (induction cs arbitrary: d)
  case Nil
  then show ?case by simp
next
  case (Cons c cs)
  from Cons.IH [OF Cons.prems [simplified]]
  show ?case
    by (auto simp: Process_hadSpeech Process_speechThreshold isSpeech_def)
qed

text \<open>
  Claim C7. Starting from a new detector and after any sequence of chunks \<open>cs\<close>, the
  call for the next chunk \<open>c\<close> returns a SilenceEvent only if some chunk of \<open>cs\<close>, which
  is strictly earlier than \<open>c\<close>, had an RMS of at least three times the silence
  threshold; and a silent chunk leaves \<open>hadSpeech\<close> as it was.
\<close>

theorem silence_event_only_after_speech:
  "(fst (SilenceDetector_Process cfg
          (SilenceDetector_run cfg (NewSilenceDetector cfg) cs) c) \<noteq> None
      \<longrightarrow> (\<exists>c' \<in> set cs. SilenceThreshold cfg * 3 \<le> calculateRMS (Samples c'))) \<and>
   (isSilent cfg c \<longrightarrow>
      hadSpeech (snd (SilenceDetector_Process cfg
                        (SilenceDetector_run cfg (NewSilenceDetector cfg) cs) c))
        = hadSpeech (SilenceDetector_run cfg (NewSilenceDetector cfg) cs))"
proof -
  let ?d = "SilenceDetector_run cfg (NewSilenceDetector cfg) cs"
  have thr: "speechThreshold ?d = SilenceThreshold cfg * 3"
    by (simp add: run_speechThreshold NewSilenceDetector_def)
  have a: "\<exists>c' \<in> set cs. SilenceThreshold cfg * 3 \<le> calculateRMS (Samples c')"
    if "fst (SilenceDetector_Process cfg ?d c) \<noteq> None"
  proof -
    from that obtain ev where "fst (SilenceDetector_Process cfg ?d c) = Some ev" by blast
    from Process_event_hadSpeech [OF this] silent_not_speech [OF thr]
    have "hadSpeech ?d" by blast
    from run_hadSpeech [OF this] show ?thesis
      by (simp add: NewSilenceDetector_def)
  qed
  have b: "hadSpeech (snd (SilenceDetector_Process cfg ?d c)) = hadSpeech ?d"
    if "isSilent cfg c"
    using silent_not_speech [OF thr that] by (simp add: Process_hadSpeech)
  from a b show ?thesis by blast
qed

theorem silence_event_only_after_speech_witness:
  "fst (SilenceDetector_Process (DefaultConfig [])
          (SilenceDetector_run (DefaultConfig []) (NewSilenceDetector (DefaultConfig []))
             [mk_chunk (1/2) 0 500000000, mk_chunk 0 500000000 500000000])
          (mk_chunk 0 1000000000 500000000)) \<noteq> None \<and>
   isSilent (DefaultConfig []) (mk_chunk 0 1000000000 500000000) \<and>
   (\<exists>c' \<in> set [mk_chunk (1/2) 0 500000000, mk_chunk 0 500000000 500000000].
       SilenceThreshold (DefaultConfig []) * 3 \<le> calculateRMS (Samples c')) \<and>
   hadSpeech (snd (SilenceDetector_Process (DefaultConfig [])
          (SilenceDetector_run (DefaultConfig []) (NewSilenceDetector (DefaultConfig []))
             [mk_chunk (1/2) 0 500000000, mk_chunk 0 500000000 500000000])
          (mk_chunk 0 1000000000 500000000)))
     = hadSpeech (SilenceDetector_run (DefaultConfig []) (NewSilenceDetector (DefaultConfig []))
             [mk_chunk (1/2) 0 500000000, mk_chunk 0 500000000 500000000])"
proof -
  let ?cfg = "DefaultConfig []"
  let ?cs = "[mk_chunk (1/2) 0 500000000, mk_chunk 0 500000000 500000000]"
  let ?c = "mk_chunk 0 1000000000 500000000"
  have ev: "fst (SilenceDetector_Process ?cfg
                   (SilenceDetector_run ?cfg (NewSilenceDetector ?cfg) ?cs) ?c) \<noteq> None"
    by (simp add: silence_eval)
  have sil: "isSilent ?cfg ?c"
    by (simp add: silence_eval)
  from silence_event_only_after_speech [of ?cfg ?cs ?c] ev sil
  show ?thesis by blast
qed

lemma Process_confirmedEnd_kept:
  "confirmedEnd d \<Longrightarrow>
   \<not> (inSilence d \<and> \<not> isSilent cfg c \<and>
      Timestamp c + Duration c - silenceStart d < 2 * Second) \<Longrightarrow>
   confirmedEnd (snd (SilenceDetector_Process cfg d c))"
  by (auto simp: SilenceDetector_Process_def Let_def)

lemma Process_event_Confirmed:
  "confirmedEnd d \<Longrightarrow> fst (SilenceDetector_Process cfg d c) = Some ev \<Longrightarrow> Confirmed ev"
  by (auto simp: SilenceDetector_Process_def Let_def split: if_splits)

lemma Process_emits:
  "isSilent cfg c \<Longrightarrow> inSilence d \<Longrightarrow> hadSpeech d \<Longrightarrow>
   SilenceMinDur cfg \<le> Timestamp c + Duration c - silenceStart d \<Longrightarrow>
   \<exists>ev. fst (SilenceDetector_Process cfg d c) = Some ev"
  by (auto simp: SilenceDetector_Process_def Let_def)

lemma run_confirmedEnd_kept:
  "confirmedEnd d \<Longrightarrow> no_short_interrupt cfg d cs \<Longrightarrow>
   confirmedEnd (SilenceDetector_run cfg d cs) \<and>
   (\<forall>ev. Some ev \<in> set (SilenceDetector_events cfg d cs) \<longrightarrow> Confirmed ev)"
proof (induction cs arbitrary: d)
  case Nil
  then show ?case by simp
next
  case (Cons c cs)
  from Cons.prems have k: "confirmedEnd (snd (SilenceDetector_Process cfg d c))"
    by (intro Process_confirmedEnd_kept) auto
  from Cons.prems have n: "no_short_interrupt cfg (snd (SilenceDetector_Process cfg d c)) cs"
    by simp
  from Cons.IH [OF k n] Process_event_Confirmed [OF Cons.prems(1)]
  show ?case by auto
qed

lemma confirmed_run_state:
  "SilenceDetector_run (DefaultConfig []) (NewSilenceDetector (DefaultConfig [])) confirmed_run =
     \<lparr> silenceStart = 500000000, inSilence = True, hadSpeech = True,
       speechThreshold = 3 / 100, potentialEndTime = 500000000, confirmedEnd = True,
       lastSpeechTime = 500000000, speechAfterSilence = 0 \<rparr>"
  by (simp add: confirmed_run_def silence_eval)

text \<open>
  Claim C9. Let a silent run whose end has been confirmed (\<open>confirmedEnd\<close> is set) be
  interrupted by a chunk \<open>c\<close> that is not silent, the run having lasted at least two
  seconds at the end of \<open>c\<close>. Then \<open>confirmedEnd\<close> is still set after \<open>c\<close>. Along every
  continuation \<open>cs\<close> in which the flag is not cleared (no run shorter than two seconds is
  interrupted), every SilenceEvent carries \<open>Confirmed = True\<close>, and after it a silent
  chunk of a run with \<open>hadSpeech\<close> and an elapsed time of at least \<open>SilenceMinDur\<close>
  returns at once an event with \<open>Confirmed = True\<close>: no fresh two seconds of silence
  are needed.
\<close>

theorem stale_confirmation:
  assumes "inSilence d" and "confirmedEnd d" and "\<not> isSilent cfg c"
    and "2 * Second \<le> Timestamp c + Duration c - silenceStart d"
    and "no_short_interrupt cfg (snd (SilenceDetector_Process cfg d c)) cs"
  shows "confirmedEnd (snd (SilenceDetector_Process cfg d c)) \<and>
         (\<forall>ev. Some ev \<in> set (SilenceDetector_events cfg
                                 (snd (SilenceDetector_Process cfg d c)) cs)
            \<longrightarrow> Confirmed ev) \<and>
         (\<forall>c'. isSilent cfg c' \<and>
               inSilence (SilenceDetector_run cfg (snd (SilenceDetector_Process cfg d c)) cs) \<and>
               hadSpeech (SilenceDetector_run cfg (snd (SilenceDetector_Process cfg d c)) cs) \<and>
               SilenceMinDur cfg \<le> Timestamp c' + Duration c'
                 - silenceStart (SilenceDetector_run cfg
                                   (snd (SilenceDetector_Process cfg d c)) cs)
            \<longrightarrow> (\<exists>ev. fst (SilenceDetector_Process cfg
                      (SilenceDetector_run cfg (snd (SilenceDetector_Process cfg d c)) cs) c')
                      = Some ev
                    \<and> Confirmed ev))"
proof -
  let ?d1 = "snd (SilenceDetector_Process cfg d c)"
  let ?dN = "SilenceDetector_run cfg ?d1 cs"
  have k: "confirmedEnd ?d1"
    using assms(2,4) by (intro Process_confirmedEnd_kept) auto
  from run_confirmedEnd_kept [OF k assms(5)]
  have kN: "confirmedEnd ?dN"
    and evs: "\<forall>ev. Some ev \<in> set (SilenceDetector_events cfg ?d1 cs) \<longrightarrow> Confirmed ev"
    by blast+
  have last: "\<exists>ev. fst (SilenceDetector_Process cfg ?dN c') = Some ev \<and> Confirmed ev"
    if "isSilent cfg c'" "inSilence ?dN" "hadSpeech ?dN"
       "SilenceMinDur cfg \<le> Timestamp c' + Duration c' - silenceStart ?dN" for c'
  proof -
    from Process_emits [OF that] obtain ev where
      "fst (SilenceDetector_Process cfg ?dN c') = Some ev" by blast
    with Process_event_Confirmed [OF kN this] show ?thesis by blast
  qed
  from k evs last show ?thesis by blast
qed

text \<open>
  The example: speech, two seconds of silence (confirmed), speech again, then a fresh
  silent run. Its first event comes after one second and is already confirmed.
\<close>

theorem stale_confirmation_witness:
  "inSilence (SilenceDetector_run (DefaultConfig [])
                (NewSilenceDetector (DefaultConfig [])) confirmed_run) \<and>
   confirmedEnd (SilenceDetector_run (DefaultConfig [])
                   (NewSilenceDetector (DefaultConfig [])) confirmed_run) \<and>
   \<not> isSilent (DefaultConfig []) (mk_chunk (1/2) 2500000000 500000000) \<and>
   SilenceDetector_events (DefaultConfig [])
     (SilenceDetector_run (DefaultConfig []) (NewSilenceDetector (DefaultConfig []))
        (confirmed_run @ [mk_chunk (1/2) 2500000000 500000000]))
     [mk_chunk 0 3000000000 500000000, mk_chunk 0 3500000000 500000000] =
     [None, Some \<lparr> StartTime_s = 3000000000, EndTime_s = 4000000000,
                   Duration_s = 1000000000, Confirmed = True \<rparr>]"
proof -
  let ?cfg = "DefaultConfig []"
  let ?d = "SilenceDetector_run ?cfg (NewSilenceDetector ?cfg) confirmed_run"
  let ?c = "mk_chunk (1/2) 2500000000 500000000"
  let ?cs = "[mk_chunk 0 3000000000 500000000, mk_chunk 0 3500000000 500000000]"
  have h1: "inSilence ?d" and h2: "confirmedEnd ?d"
    by (simp_all add: confirmed_run_state)
  have h3: "\<not> isSilent ?cfg ?c"
    by (simp add: silence_eval)
  have h4: "2 * Second \<le> Timestamp ?c + Duration ?c - silenceStart ?d"
    unfolding confirmed_run_state by (simp add: silence_eval)
  have h5: "no_short_interrupt ?cfg (snd (SilenceDetector_Process ?cfg ?d ?c)) ?cs"
    unfolding confirmed_run_state by (simp add: silence_eval)
  have run_app: "SilenceDetector_run ?cfg (NewSilenceDetector ?cfg) (confirmed_run @ [?c])
                   = snd (SilenceDetector_Process ?cfg ?d ?c)"
    by (simp add: confirmed_run_def)
  have ev: "SilenceDetector_events ?cfg (snd (SilenceDetector_Process ?cfg ?d ?c)) ?cs =
     [None, Some \<lparr> StartTime_s = 3000000000, EndTime_s = 4000000000,
                   Duration_s = 1000000000, Confirmed = True \<rparr>]"
    unfolding confirmed_run_state by (simp add: silence_eval)
  from stale_confirmation [OF h1 h2 h3 h4 h5] h1 h2 h3 ev run_app
  show ?thesis by simp
qed

section \<open>Properties of the beep detector\<close>

lemma marker_analyzer_mk_chunk:
  "marker_analyzer cfg rate (Samples (mk_chunk x ts dur)) =
     (if x = 1 / 4 then (1000, 1 / 10, True) else (0, 0, False))"
  by (simp add: marker_analyzer_def mk_chunk_def)

lemma Beep_Process_minHits:
  "minHits (snd (BeepDetector_Process an cfg d c)) = minHits d"
  by (simp add: BeepDetector_Process_def BeepDetector_reset_def Let_def split: prod.splits)

lemma Beep_Process_inv:
  assumes "beep_inv D d t" and "t \<le> Timestamp c" and "0 \<le> D"
  shows "beep_inv D (snd (BeepDetector_Process an cfg d c)) (Timestamp c + D)"
proof (cases "length (Samples c) < 64")
  case True
  have "consecutiveHits d * D \<le> Timestamp c + D - beepStartTime d"
    if "consecutiveHits d * D \<le> t - beepStartTime d"
    using that assms(2,3) by linarith
  with True assms(1) show ?thesis
    by (auto simp: BeepDetector_Process_def beep_inv_def split: if_splits)
next
  case long: False
  obtain freq amp isTone where an: "an cfg (sampleRate d) (Samples c) = (freq, amp, isTone)"
    by (cases "an cfg (sampleRate d) (Samples c)") auto
  show ?thesis
  proof (cases "isBeepLike an cfg d c")
    case True
    have "(consecutiveHits d + 1) * D \<le> Timestamp c + D - beepStartTime d"
      if "consecutiveHits d * D \<le> t - beepStartTime d"
      using that assms(2) by (simp add: algebra_simps)
    with True long an assms(1) show ?thesis
      by (auto simp: BeepDetector_Process_def beep_inv_def Let_def split: if_splits)
  next
    case False
    with long an show ?thesis
      by (simp add: BeepDetector_Process_def beep_inv_def Let_def BeepDetector_reset_def)
  qed
qed

lemma Beep_Process_event_span:
  assumes "beep_inv D d t" and "t \<le> Timestamp c" and "0 \<le> D"
    and "fst (BeepDetector_Process an cfg d c) = Some ev"
  shows "minHits d * D \<le> EndTime ev - StartTime ev"
proof -
  from assms(4) have act: "beepActive d" and hits: "minHits d \<le> consecutiveHits d"
    and ev: "ev = \<lparr> StartTime = beepStartTime d, EndTime = Timestamp c,
                    Frequency = beepFrequency d, Amplitude = beepAmplitude d \<rparr>"
    by (simp_all add: BeepDetector_Process_def BeepDetector_reset_def Let_def
          split: prod.splits if_splits)
  from assms(1) act have "consecutiveHits d * D \<le> t - beepStartTime d"
    by (simp add: beep_inv_def)
  moreover from hits assms(3) have "minHits d * D \<le> consecutiveHits d * D"
    by (rule mult_right_mono)
  ultimately show ?thesis
    using assms(2) by (simp add: ev)
qed

lemma Beep_events_span:
  assumes "advances_from D t cs" and "0 \<le> D" and "beep_inv D d t"
    and "Some ev \<in> set (BeepDetector_events an cfg d cs)"
  shows "minHits d * D \<le> EndTime ev - StartTime ev"
  using assms
proof (induction cs arbitrary: t d)
  case Nil
  then show ?case by simp
next
  case (Cons c cs)
  let ?d = "snd (BeepDetector_Process an cfg d c)"
  from Cons.prems(1) have le: "t \<le> Timestamp c"
    and rest: "advances_from D (Timestamp c + D) cs" by simp_all
  note inv = Beep_Process_inv [OF Cons.prems(3) le Cons.prems(2), of an cfg]
  from Cons.prems(4) consider "fst (BeepDetector_Process an cfg d c) = Some ev"
    | "Some ev \<in> set (BeepDetector_events an cfg ?d cs)"
    by auto
  then show ?case
  proof cases
    case 1
    then show ?thesis
      by (rule Beep_Process_event_span [OF Cons.prems(3) le Cons.prems(2)])
  next
    case 2
    from Cons.IH [OF rest Cons.prems(2) inv 2] show ?thesis
      by (simp add: Beep_Process_minHits)
  qed
qed

text \<open>
  Claim C6, as amended. For a detector made by \<^verbatim>\<open>NewBeepDetector\<close> and every sequence
  of chunks in which the timestamp of each chunk is at least the timestamp of the chunk
  before it plus \<open>D\<close>, for a \<open>D\<close> that is not negative, every BeepEvent that
  \<^verbatim>\<open>BeepDetector.Process\<close> returns spans at least \<open>minHits\<close> times \<open>D\<close>. No event is
  returned at the end of a stream, so there is no exception for a stream that ends in a
  beep.
\<close>

theorem beep_event_min_span:
  assumes "0 \<le> D" and "NewBeepDetector cfg rate = Some d0" and "advances_by D cs"
  shows "\<forall>ev. Some ev \<in> set (BeepDetector_events an cfg d0 cs)
           \<longrightarrow> minHits d0 * D \<le> EndTime ev - StartTime ev"
proof (cases cs)
  case Nil
  then show ?thesis by simp
next
  case (Cons c cs')
  from assms(2) have init: "beepActive d0 = False" "consecutiveHits d0 = 0"
    by (auto simp: NewBeepDetector_def split: option.splits)
  from assms(3) Cons have adv: "advances_from D (Timestamp c) cs"
    by (simp add: advances_by_def)
  have inv: "beep_inv D d0 (Timestamp c)"
    by (simp add: beep_inv_def init)
  from Beep_events_span [OF adv assms(1) inv] show ?thesis by blast
qed

text \<open>
  The streams of the chunk source advance by the actual duration of a full chunk, which
  is the configured chunk duration only if the rate times that duration is a whole number
  of samples.
\<close>

lemma actualDuration_nonneg: "0 < rate \<Longrightarrow> 0 \<le> actualDuration rate n"
  by (simp add: actualDuration_def go_trunc_def)

lemma StreamWithPacing_advances_from:
  assumes "\<forall>b \<in> set (butlast reads). length b = n"
  shows "advances_from (actualDuration rate n) t (StreamWithPacing cfg rate t reads)"
  using assms
proof (induction reads arbitrary: t)
  case Nil
  then show ?case by simp
next
  case (Cons b reads)
  show ?case
  proof (cases "reads = []")
    case True
    then show ?thesis by simp
  next
    case False
    with Cons.prems have len: "length b = n" and rest: "\<forall>b \<in> set (butlast reads). length b = n"
      by simp_all
    from Cons.IH [OF rest, of "t + actualDuration rate n"] len show ?thesis
      by simp
  qed
qed

lemma StreamWithPacing_advances_by:
  assumes "\<forall>b \<in> set (butlast reads). length b = n"
  shows "advances_by (actualDuration rate n) (StreamWithPacing cfg rate t reads)"
proof (cases "StreamWithPacing cfg rate t reads")
  case Nil
  then show ?thesis by (simp add: advances_by_def)
next
  case (Cons c cs)
  then have "Timestamp c = t"
    by (cases reads) (auto split: if_splits)
  with StreamWithPacing_advances_from [OF assms, of rate t cfg] Cons show ?thesis
    by (simp add: advances_by_def)
qed

lemma actualDuration_11025: "actualDuration 11025 220 = 19954648"
  by (simp add: actualDuration_def go_trunc_def)

lemma samplesPerChunk_11025: "samplesPerChunk (DefaultConfig []) 11025 = 220"
  by (simp add: samplesPerChunk_def go_trunc_def DefaultConfig_def Millisecond_def)

lemma hz11025_stream_value:
  "hz11025_stream =
     [\<lparr> Samples = replicate 220 (1/4), Timestamp = 0, Duration = 20000000 \<rparr>,
      \<lparr> Samples = replicate 220 (1/4), Timestamp = 19954648, Duration = 20000000 \<rparr>,
      \<lparr> Samples = replicate 220 (1/4), Timestamp = 39909296, Duration = 20000000 \<rparr>,
      \<lparr> Samples = replicate 220 (1/4), Timestamp = 59863944, Duration = 20000000 \<rparr>,
      \<lparr> Samples = replicate 220 (1/4), Timestamp = 79818592, Duration = 20000000 \<rparr>,
      \<lparr> Samples = replicate 220 (1/4), Timestamp = 99773240, Duration = 20000000 \<rparr>,
      \<lparr> Samples = replicate 220 (1/4), Timestamp = 119727888, Duration = 20000000 \<rparr>,
      \<lparr> Samples = replicate 220 0, Timestamp = 139682536, Duration = 20000000 \<rparr>,
      \<lparr> Samples = replicate 220 0, Timestamp = 159637184, Duration = 20000000 \<rparr>]"
  by (simp add: hz11025_stream_def reads11025_def actualDuration_11025 DefaultConfig_def
        Millisecond_def)

lemma marker_analyzer_replicate:
  "marker_analyzer cfg rate (replicate 220 x) =
     (if x = 1 / 4 then (1000, 1 / 10, True) else (0, 0, False))"
  by (simp add: marker_analyzer_def)

lemma New11025: "NewBeepDetector (DefaultConfig []) 11025 = Some detector11025"
  by (simp add: NewBeepDetector_def go_div_def DefaultConfig_def Millisecond_def
        detector11025_def)

lemmas beep11025_eval =
  BeepDetector_Process_def isBeepLike_def freqDeviates_def BeepDetector_reset_def Let_def
  marker_analyzer_replicate DefaultConfig_def Millisecond_def detector11025_def

lemma hz11025_events:
  "BeepDetector_events marker_analyzer (DefaultConfig []) detector11025 hz11025_stream =
     [None, None, None, None, None, None, None,
      Some \<lparr> StartTime = 0, EndTime = 139682536, Frequency = 1000, Amplitude = 1 / 10 \<rparr>,
      None]"
  unfolding hz11025_stream_value by (simp add: beep11025_eval)

lemma hz11025_idle:
  "beepActive (BeepDetector_run marker_analyzer (DefaultConfig []) detector11025 hz11025_stream)
     = False"
  unfolding hz11025_stream_value by (simp add: beep11025_eval)

theorem beep_event_min_span_witness:
  "0 \<le> actualDuration 11025 220 \<and>
   NewBeepDetector (DefaultConfig []) 11025 = Some detector11025 \<and>
   advances_by (actualDuration 11025 220) hz11025_stream \<and>
   BeepDetector_events marker_analyzer (DefaultConfig []) detector11025 hz11025_stream =
     [None, None, None, None, None, None, None,
      Some \<lparr> StartTime = 0, EndTime = 139682536, Frequency = 1000, Amplitude = 1 / 10 \<rparr>,
      None] \<and>
   minHits detector11025 * actualDuration 11025 220 \<le> 139682536 - 0"
proof -
  have h1: "0 \<le> actualDuration 11025 220"
    by (simp add: actualDuration_11025)
  have "\<forall>b \<in> set (butlast reads11025). length b = 220"
    by (simp add: reads11025_def)
  then have h3: "advances_by (actualDuration 11025 220) hz11025_stream"
    unfolding hz11025_stream_def by (rule StreamWithPacing_advances_by)
  have "Some \<lparr> StartTime = 0, EndTime = 139682536, Frequency = 1000, Amplitude = 1 / 10 \<rparr>
          \<in> set (BeepDetector_events marker_analyzer (DefaultConfig []) detector11025
                   hz11025_stream)"
    by (simp add: hz11025_events)
  with beep_event_min_span [OF h1 New11025 h3, of marker_analyzer]
  have "minHits detector11025 * actualDuration 11025 220 \<le> 139682536 - 0"
    by fastforce
  with h1 New11025 h3 hz11025_events show ?thesis by simp
qed

text \<open>
  The claim as stated, with the configured chunk duration in the bound, fails on the
  stream of a file sampled at 11025 Hz: a chunk has 220 samples, the timestamps advance by
  19954648 ns, the actual duration of a chunk, and the event returned after seven hits
  spans 139682536 ns, less than seven times 20 ms. The stream goes on after the beep and
  the detector is idle at its end.
\<close>

theorem beep_event_nominal_counterexample:
  "samplesPerChunk (DefaultConfig []) 11025 = 220 \<and>
   actualDuration 11025 220 = 19954648 \<and>
   map Timestamp hz11025_stream =
     [0, 19954648, 39909296, 59863944, 79818592, 99773240, 119727888, 139682536, 159637184] \<and>
   NewBeepDetector (DefaultConfig []) 11025 = Some detector11025 \<and>
   minHits detector11025 = 7 \<and>
   BeepDetector_events marker_analyzer (DefaultConfig []) detector11025 hz11025_stream =
     [None, None, None, None, None, None, None,
      Some \<lparr> StartTime = 0, EndTime = 139682536, Frequency = 1000, Amplitude = 1 / 10 \<rparr>,
      None] \<and>
   beepActive (BeepDetector_run marker_analyzer (DefaultConfig []) detector11025 hz11025_stream)
     = False \<and>
   139682536 - 0 < 7 * ChunkDuration (DefaultConfig [])"
proof -
  have "map Timestamp hz11025_stream =
     [0, 19954648, 39909296, 59863944, 79818592, 99773240, 119727888, 139682536, 159637184]"
    by (simp add: hz11025_stream_value)
  moreover have "minHits detector11025 = 7"
    by (simp add: detector11025_def)
  moreover have "139682536 - 0 < 7 * ChunkDuration (DefaultConfig [])"
    by (simp add: DefaultConfig_def Millisecond_def)
  ultimately show ?thesis
    using samplesPerChunk_11025 actualDuration_11025 New11025 hz11025_events hz11025_idle
    by simp
qed

section \<open>Properties of the phrase detector\<close>

lemma ToLower_beep: "ToLower ''after the beep'' = ''after the beep''"
  by (simp add: ToLower_def to_lower_char_def)

lemma ToLower_BEEP: "ToLower ''After the BEEP'' = ''after the beep''"
  by (simp add: ToLower_def to_lower_char_def)

lemma ToLower_tone: "ToLower ''after the tone'' = ''after the tone''"
  by (simp add: ToLower_def to_lower_char_def)

lemma Match_beep_beep: "MatchString ''after the beep'' ''after the beep''"
  by (simp add: MatchString_def ToLower_beep)

lemma Match_beep_tone: "\<not> MatchString ''after the beep'' ''after the tone''"
  by (simp add: MatchString_def ToLower_beep ToLower_tone)

lemma Match_tone_tone: "MatchString ''after the tone'' ''after the tone''"
  by (simp add: MatchString_def ToLower_tone)

lemma Process_after_the_beep: "PhraseDetector_Process (DefaultConfig []) d ''After the BEEP'' ts =
   (Some \<lparr> Timestamp_p = ts, Phrase = ''after the beep'', FullText = ''after the beep'' \<rparr>,
    d\<lparr> detected := Some \<lparr> Timestamp_p = ts, Phrase = ''after the beep'', FullText = ''after the beep'' \<rparr> \<rparr>)"
  by (simp add: PhraseDetector_Process_def Let_def ToLower_BEEP Match_beep_beep DefaultConfig_def)

lemma Process_after_the_tone: "PhraseDetector_Process (DefaultConfig []) d ''after the tone'' ts =
   (Some \<lparr> Timestamp_p = ts, Phrase = ''after the tone'', FullText = ''after the tone'' \<rparr>,
    d\<lparr> detected := Some \<lparr> Timestamp_p = ts, Phrase = ''after the tone'', FullText = ''after the tone'' \<rparr> \<rparr>)"
  by (simp add: PhraseDetector_Process_def Let_def ToLower_tone Match_beep_tone Match_tone_tone DefaultConfig_def)

text \<open>
  Claim C4, as amended. Every call whose text contains a configured end phrase returns
  a PhraseEvent, whether or not an earlier call matched: the event carries the call's
  timestamp, the lowercased text and a matching phrase, and it replaces the recorded
  event. A call whose text contains no end phrase returns nothing and leaves the
  detector as it was.
\<close>

theorem phrase_every_match_returns:
  "((\<exists>p \<in> set (EndPhrases cfg). MatchString p (ToLower text)) \<longrightarrow>
      (\<exists>ev. fst (PhraseDetector_Process cfg d text ts) = Some ev \<and>
            GetDetected (snd (PhraseDetector_Process cfg d text ts)) = Some ev \<and>
            Timestamp_p ev = ts \<and> FullText ev = ToLower text \<and>
            Phrase ev \<in> set (EndPhrases cfg) \<and> MatchString (Phrase ev) (ToLower text))) \<and>
   (\<not> (\<exists>p \<in> set (EndPhrases cfg). MatchString p (ToLower text)) \<longrightarrow>
      PhraseDetector_Process cfg d text ts = (None, d))"
proof (cases "find (\<lambda>phrase. MatchString phrase (ToLower text)) (EndPhrases cfg)")
  case None
  then have "\<not> (\<exists>p \<in> set (EndPhrases cfg). MatchString p (ToLower text))"
    by (simp add: find_None_iff)
  with None show ?thesis
    by (simp add: PhraseDetector_Process_def Let_def)
next
  case (Some p)
  then have "p \<in> set (EndPhrases cfg)" "MatchString p (ToLower text)"
    by (auto simp: find_Some_iff)
  with Some show ?thesis
    by (auto simp: PhraseDetector_Process_def GetDetected_def Let_def)
qed

theorem phrase_every_match_returns_witness:
  "(\<exists>p \<in> set (EndPhrases (DefaultConfig [])). MatchString p (ToLower ''After the BEEP'')) \<and>
   fst (PhraseDetector_Process (DefaultConfig [])
          (snd (PhraseDetector_Process (DefaultConfig []) (NewPhraseDetector (DefaultConfig []))
                  ''after the tone'' 1000000000))
          ''After the BEEP'' 2000000000) \<noteq> None"
proof (rule conjI)
  have "MatchString ''after the beep'' (ToLower ''After the BEEP'')"
    by (simp only: ToLower_BEEP Match_beep_beep)
  moreover have "''after the beep'' \<in> set (EndPhrases (DefaultConfig []))"
    by (simp add: DefaultConfig_def)
  ultimately show m: "\<exists>p \<in> set (EndPhrases (DefaultConfig [])).
      MatchString p (ToLower ''After the BEEP'')"
    by (rule bexI [of "\<lambda>p. MatchString p (ToLower ''After the BEEP'')" "''after the beep''"])
  from phrase_every_match_returns [of "DefaultConfig []" "''After the BEEP''"
      "snd (PhraseDetector_Process (DefaultConfig []) (NewPhraseDetector (DefaultConfig []))
                  ''after the tone'' 1000000000)" 2000000000,
      THEN conjunct1, rule_format, OF m]
  obtain ev where "fst (PhraseDetector_Process (DefaultConfig [])
          (snd (PhraseDetector_Process (DefaultConfig []) (NewPhraseDetector (DefaultConfig []))
                  ''after the tone'' 1000000000))
          ''After the BEEP'' 2000000000) = Some ev"
    by (elim exE conjE)
  then show "fst (PhraseDetector_Process (DefaultConfig [])
          (snd (PhraseDetector_Process (DefaultConfig []) (NewPhraseDetector (DefaultConfig []))
                  ''after the tone'' 1000000000))
          ''After the BEEP'' 2000000000) \<noteq> None"
    by (simp only: option.distinct not_False_eq_True)
qed

text \<open>
  The claim as stated fails: after a first match (``after the tone'' at 1 s) a second
  matching call (``After the BEEP'' at 2 s) returns an event again, and the recorded
  event is the second one.
\<close>

theorem phrase_retrigger_counterexample:
  "GetDetected (snd (PhraseDetector_Process (DefaultConfig [])
                       (NewPhraseDetector (DefaultConfig [])) ''after the tone'' 1000000000)) =
     Some \<lparr> Timestamp_p = 1000000000, Phrase = ''after the tone'',
            FullText = ''after the tone'' \<rparr> \<and>
   PhraseDetector_Process (DefaultConfig [])
     (snd (PhraseDetector_Process (DefaultConfig [])
             (NewPhraseDetector (DefaultConfig [])) ''after the tone'' 1000000000))
     ''After the BEEP'' 2000000000 =
     (Some \<lparr> Timestamp_p = 2000000000, Phrase = ''after the beep'',
             FullText = ''after the beep'' \<rparr>,
      \<lparr> detected = Some \<lparr> Timestamp_p = 2000000000, Phrase = ''after the beep'',
                           FullText = ''after the beep'' \<rparr> \<rparr>)"
  by (simp add: Process_after_the_beep Process_after_the_tone GetDetected_def NewPhraseDetector_def)

section \<open>Properties of the decision engine\<close>

lemma recordBeep_fields [simp]:
  "decisionMade (recordBeep e b) = decisionMade e"
  "decisionResult (recordBeep e b) = decisionResult e"
  "silenceDetector (recordBeep e b) = silenceDetector e"
  "beepDetector (recordBeep e b) = beepDetector e"
  "firstSilenceAt (recordBeep e b) = firstSilenceAt e"
  "phraseFound (recordBeep e b) = phraseFound e"
  "expectsBeep (recordBeep e b) = expectsBeep e"
  by (simp_all add: recordBeep_def split: option.splits)

lemma recordSilence_fields [simp]:
  "decisionMade (recordSilence e s) = decisionMade e"
  "decisionResult (recordSilence e s) = decisionResult e"
  "silenceDetector (recordSilence e s) = silenceDetector e"
  "beepDetector (recordSilence e s) = beepDetector e"
  "beepDetected (recordSilence e s) = beepDetected e"
  "phraseFound (recordSilence e s) = phraseFound e"
  "expectsBeep (recordSilence e s) = expectsBeep e"
  by (simp_all add: recordSilence_def split: option.splits)

lemma verifyBeep_fields [simp]:
  "decisionMade (verifyBeep e c s) = decisionMade e"
  "decisionResult (verifyBeep e c s) = decisionResult e"
  "silenceDetector (verifyBeep e c s) = silenceDetector e"
  "beepDetector (verifyBeep e c s) = beepDetector e"
  "firstSilenceAt (verifyBeep e c s) = firstSilenceAt e"
  "phraseFound (verifyBeep e c s) = phraseFound e"
  "expectsBeep (verifyBeep e c s) = expectsBeep e"
  by (simp_all add: verifyBeep_def Let_def split: option.splits)

lemma processChunk_fields:
  "decisionMade (processChunk an cfg e c) = decisionMade e"
  "decisionResult (processChunk an cfg e c) = decisionResult e"
  "phraseFound (processChunk an cfg e c) = phraseFound e"
  "expectsBeep (processChunk an cfg e c) = expectsBeep e"
  "silenceDetector (processChunk an cfg e c) =
     snd (SilenceDetector_Process cfg (silenceDetector e) c)"
  "beepDetector (processChunk an cfg e c) =
     snd (BeepDetector_Process an cfg (beepDetector e) c)"
  by (simp_all add: processChunk_def Let_def)

lemma processTranscript_fields:
  "decisionMade (processTranscript cfg e ev) = decisionMade e"
  "decisionResult (processTranscript cfg e ev) = decisionResult e"
  "silenceDetector (processTranscript cfg e ev) = silenceDetector e"
  "beepDetector (processTranscript cfg e ev) = beepDetector e"
  "beepDetected (processTranscript cfg e ev) = beepDetected e"
  "firstSilenceAt (processTranscript cfg e ev) = firstSilenceAt e"
  by (simp_all add: processTranscript_def Let_def split: option.splits)

lemma makeDecision_fields [simp]:
  "decisionMade (makeDecision e d w t) = True"
  "decisionResult (makeDecision e d w t) =
     Some \<lparr> RecommendedDropTime = d, Reason = w, Signals = signals e,
            Transcript = transcript e, DecisionMadeAt = t,
            DeadAir = (if firstSilenceAt e > 0 then t - firstSilenceAt e
                       else case beepDetected e of
                              Some b \<Rightarrow> t - EndTime b
                            | None \<Rightarrow> 0) \<rparr>"
  by (simp_all add: makeDecision_def Let_def)









lemma NewDecisionEngine_Some:
  assumes "NewDecisionEngine cfg rate0 = Some e"
  shows "\<not> decisionMade e" and "NewBeepDetector cfg rate \<noteq> None"
    and "no_evidence e" and "speechThreshold (silenceDetector e) = SilenceThreshold cfg * 3"
proof -
  from assms obtain bd where bd: "NewBeepDetector cfg rate0 = Some bd"
    and e: "e = \<lparr> beepDetector = bd,
                 silenceDetector = NewSilenceDetector cfg,
                 phraseDetector = NewPhraseDetector cfg,
                 signals = [], transcript = [], beepDetected = None, beepConfirmedAt = 0,
                 phraseFound = False, expectsBeep = False, phraseTime = 0,
                 firstSilenceAt = 0, decisionMade = False, decisionResult = None \<rparr>"
    by (auto simp: NewDecisionEngine_def split: option.splits)
  from bd have "go_div (150 * Millisecond) (ChunkDuration cfg) \<noteq> None"
    by (auto simp: NewBeepDetector_def split: option.splits)
  then show "NewBeepDetector cfg rate \<noteq> None"
    by (auto simp: NewBeepDetector_def split: option.splits)
  show "\<not> decisionMade e" "no_evidence e"
    "speechThreshold (silenceDetector e) = SilenceThreshold cfg * 3"
    by (simp_all add: e no_evidence_def NewSilenceDetector_def)
qed

section \<open>Evaluating the engine on the example streams\<close>

lemma cfg250_simps:
  "ChunkDuration cfg250 = 250000000"
  "SilenceThreshold cfg250 = 1 / 100"
  "SilenceMinDur cfg250 = 500000000"
  "BeepWaitTimeout cfg250 = 2000000000"
  "BeepMinFreq cfg250 = 600"
  "BeepMaxFreq cfg250 = 2500"
  "BeepMinAmplitude cfg250 = 2 / 100"
  "EnableSTT cfg250 = False"
  by (simp_all add: cfg250_def DefaultConfig_def Millisecond_def Second_def)

lemma cfg250k_simps:
  "ChunkDuration cfg250k = 250000000"
  "SilenceThreshold cfg250k = 1 / 100"
  "SilenceMinDur cfg250k = 500000000"
  "BeepWaitTimeout cfg250k = 2000000000"
  "BeepMinFreq cfg250k = 600"
  "BeepMaxFreq cfg250k = 2500"
  "BeepMinAmplitude cfg250k = 2 / 100"
  "EnableSTT cfg250k = True"
  by (simp_all add: cfg250k_def DefaultConfig_def Millisecond_def Second_def)

lemma New250: "NewBeepDetector cfg250 256 = Some detector250"
  by (simp add: NewBeepDetector_def go_div_def cfg250_simps Millisecond_def detector250_def)

lemma New250k: "NewBeepDetector cfg250k 256 = Some detector250"
  by (simp add: NewBeepDetector_def go_div_def cfg250k_simps Millisecond_def detector250_def)

lemma NewEngine250: "NewDecisionEngine cfg250 256 = Some engine250"
  by (simp add: NewDecisionEngine_def New250 engine250_def NewSilenceDetector_def
        NewPhraseDetector_def cfg250_simps)

lemma NewEngine250k: "NewDecisionEngine cfg250k 256 = Some engine250"
  by (simp add: NewDecisionEngine_def New250k engine250_def NewSilenceDetector_def
        NewPhraseDetector_def cfg250k_simps)

lemma chunk250_simps:
  "calculateRMS (Samples (chunk250 x i)) = \<bar>x\<bar>"
  "Timestamp (chunk250 x i) = i * 250000000"
  "Duration (chunk250 x i) = 250000000"
  "length (Samples (chunk250 x i)) = 64"
  "marker_analyzer cfg rate (Samples (chunk250 x i)) =
     (if x = 1 / 4 then (1000, 1 / 10, True) else (0, 0, False))"
  by (simp_all add: chunk250_def mk_chunk_simps marker_analyzer_mk_chunk)

lemmas engine_eval =
  processChunk_def recordBeep_def recordSilence_def verifyBeep_def checkForDecision_def
  rule1_def rule2_def rule3_def rule4_def makeDecision_def makeFinalDecision_def
  PostBeepVerifyDuration_def
  SilenceDetector_Process_def isSilent_def isSpeech_def
  BeepDetector_Process_def isBeepLike_def freqDeviates_def BeepDetector_reset_def
  Let_def cfg250_simps cfg250k_simps chunk250_simps Second_def Millisecond_def
  engine250_def detector250_def go_trunc_def

lemma ToLower_EndPhrases:
  "map ToLower (EndPhrases (DefaultConfig k)) = EndPhrases (DefaultConfig k)"
  by (simp add: DefaultConfig_def ToLower_def to_lower_char_def)

lemma no_match_hi: "\<not> matches_end_phrase cfg250k ''Hi''"
proof -
  have l: "ToLower ''Hi'' = ''hi''" "ToLower ''hi'' = ''hi''"
    by (simp_all add: ToLower_def to_lower_char_def)
  have "\<forall>q \<in> set (map ToLower (EndPhrases (DefaultConfig ''key''))). \<not> Contains ''hi'' q"
    unfolding ToLower_EndPhrases by (simp add: DefaultConfig_def)
  then have "\<forall>p \<in> set (EndPhrases (DefaultConfig ''key'')). \<not> Contains ''hi'' (ToLower p)"
    by (simp only: set_map ball_simps)
  moreover have "EndPhrases cfg250k = EndPhrases (DefaultConfig ''key'')"
    by (simp add: cfg250k_def)
  ultimately show ?thesis
    by (simp only: matches_end_phrase_def MatchString_def l bex_simps)
qed

lemma Beep_Process_allBeeps_mono:
  "allBeeps d \<noteq> [] \<Longrightarrow> allBeeps (snd (BeepDetector_Process an cfg d c)) \<noteq> []"
  by (simp add: BeepDetector_Process_def BeepDetector_reset_def Let_def split: prod.splits)

lemma Beep_run_allBeeps_mono:
  "allBeeps d \<noteq> [] \<Longrightarrow> allBeeps (BeepDetector_run an cfg d cs) \<noteq> []"
  by (induction cs arbitrary: d) (simp_all add: Beep_Process_allBeeps_mono)

lemma Beep_Process_event_allBeeps:
  "fst (BeepDetector_Process an cfg d c) = Some ev \<Longrightarrow>
     allBeeps (snd (BeepDetector_Process an cfg d c)) \<noteq> []"
  by (simp add: BeepDetector_Process_def BeepDetector_reset_def Let_def
        split: prod.splits if_splits)

lemma Beep_run_no_event:
  assumes "allBeeps (BeepDetector_run an cfg d (c # cs)) = []"
  shows "fst (BeepDetector_Process an cfg d c) = None"
    and "allBeeps (BeepDetector_run an cfg (snd (BeepDetector_Process an cfg d c)) cs) = []"
proof -
  show "fst (BeepDetector_Process an cfg d c) = None"
  proof (cases "fst (BeepDetector_Process an cfg d c)")
    case None
    then show ?thesis .
  next
    case (Some ev)
    from Beep_run_allBeeps_mono [OF Beep_Process_event_allBeeps [OF Some]] assms
    show ?thesis by simp
  qed
  from assms show "allBeeps (BeepDetector_run an cfg (snd (BeepDetector_Process an cfg d c)) cs) = []"
    by simp
qed

lemma Silence_Process_quiet:
  assumes "\<not> hadSpeech d" and "speechThreshold d = SilenceThreshold cfg * 3"
    and "isSilent cfg c"
  shows "fst (SilenceDetector_Process cfg d c) = None"
    and "\<not> hadSpeech (snd (SilenceDetector_Process cfg d c))"
proof -
  have ns: "\<not> isSpeech d c"
    by (rule silent_not_speech [OF assms(2,3)])
  show "\<not> hadSpeech (snd (SilenceDetector_Process cfg d c))"
    using assms(1) ns by (simp add: Process_hadSpeech)
  show "fst (SilenceDetector_Process cfg d c) = None"
  proof (cases "fst (SilenceDetector_Process cfg d c)")
    case None
    then show ?thesis .
  next
    case (Some ev)
    from Process_event_hadSpeech [OF Some] assms(1) ns show ?thesis by simp
  qed
qed

lemma processChunk_no_evidence:
  assumes "no_evidence e" and "speechThreshold (silenceDetector e) = SilenceThreshold cfg * 3"
    and "isSilent cfg c" and "fst (BeepDetector_Process an cfg (beepDetector e) c) = None"
  shows "no_evidence (processChunk an cfg e c)"
proof -
  from assms(1) have ns: "\<not> hadSpeech (silenceDetector e)"
    by (simp add: no_evidence_def)
  note q = Silence_Process_quiet [OF ns assms(2,3)]
  show ?thesis
    using assms(1) q
    by (simp add: no_evidence_def processChunk_def Let_def assms(4) recordBeep_def
          recordSilence_def verifyBeep_def)
qed

lemma checkForDecision_no_evidence:
  "no_evidence e \<Longrightarrow> checkForDecision cfg e t = e"
  by (simp add: no_evidence_def checkForDecision_def rule1_def rule2_def rule3_def rule4_def)

lemma processTranscript_no_match:
  assumes "\<not> matches_end_phrase cfg (Text ev)"
  shows "processTranscript cfg e ev = e\<lparr> transcript := transcript e @ '' '' @ Text ev \<rparr>"
proof -
  from assms have "find (\<lambda>phrase. MatchString phrase (ToLower (Text ev))) (EndPhrases cfg) = None"
    by (simp add: matches_end_phrase_def find_None_iff)
  then have "PhraseDetector_Process cfg (phraseDetector e) (Text ev) (Timestamp_t ev)
               = (None, phraseDetector e)"
    by (simp add: PhraseDetector_Process_def Let_def)
  then show ?thesis
    by (simp add: processTranscript_def Let_def)
qed

lemma total_duration_Cons:
  "total_duration (c # cs) = (if cs = [] then Timestamp c + Duration c else total_duration cs)"
  by (simp add: total_duration_def)

lemma stream_loop_no_evidence:
  assumes "no_evidence e" and "speechThreshold (silenceDetector e) = SilenceThreshold cfg * 3"
    and "\<forall>c \<in> set (chunks_of xs). isSilent cfg c"
    and "allBeeps (BeepDetector_run an cfg (beepDetector e) (chunks_of xs)) = []"
    and "\<forall>ev \<in> set (transcripts_of xs). \<not> matches_end_phrase cfg (Text ev)"
  shows "no_evidence (fst (stream_loop an cfg stt e t xs)) \<and>
         snd (stream_loop an cfg stt e t xs) =
           (if chunks_of xs = [] then t else total_duration (chunks_of xs))"
  using assms
proof (induction an cfg stt e t xs rule: stream_loop.induct)
  case (1 an cfg stt e t)
  then show ?case by simp
next
  case (2 an cfg stt e t ev xs)
  from "2.prems"(5) have nm: "\<not> matches_end_phrase cfg (Text ev)" by simp
  let ?e = "if stt then processTranscript cfg e ev else e"
  have a: "no_evidence ?e" "speechThreshold (silenceDetector ?e) = SilenceThreshold cfg * 3"
    "beepDetector ?e = beepDetector e"
    using "2.prems"(1,2) by (simp_all add: processTranscript_no_match [OF nm] no_evidence_def)
  from "2.IH" [OF a(1,2)] "2.prems"(3,4,5) a(3) show ?case by simp
next
  case (3 an cfg stt e t c xs)
  let ?e1 = "processChunk an cfg e c"
  from "3.prems"(3) have sil: "isSilent cfg c" by simp
  from "3.prems"(4) have run: "allBeeps (BeepDetector_run an cfg (beepDetector e) (c # chunks_of xs)) = []"
    by simp
  note b = Beep_run_no_event [OF run]
  have ne1: "no_evidence ?e1"
    by (rule processChunk_no_evidence [OF "3.prems"(1,2) sil b(1)])
  then have nd: "\<not> decisionMade ?e1" by (simp add: no_evidence_def)
  have thr: "speechThreshold (silenceDetector ?e1) = SilenceThreshold cfg * 3"
    using "3.prems"(2) by (simp add: processChunk_fields Process_speechThreshold)
  have bd: "beepDetector ?e1 = snd (BeepDetector_Process an cfg (beepDetector e) c)"
    by (simp add: processChunk_fields)
  have chk: "checkForDecision cfg ?e1 (Timestamp c + Duration c) = ?e1"
    by (rule checkForDecision_no_evidence [OF ne1])
  have ih: "no_evidence (fst (stream_loop an cfg stt ?e1 (Timestamp c + Duration c) xs)) \<and>
         snd (stream_loop an cfg stt ?e1 (Timestamp c + Duration c) xs) =
           (if chunks_of xs = [] then Timestamp c + Duration c else total_duration (chunks_of xs))"
    using "3.IH" [OF refl nd] "3.prems"(3,5) b(2) ne1 thr unfolding chk bd by simp
  show ?case
    using ih nd by (simp add: Let_def chk total_duration_Cons)
qed

text \<open>
  Claim C5. On a new engine, for a stream whose chunks all have an RMS below the silence
  threshold, on which the beep detector emits no event and in which no transcript text
  contains an end phrase, \<^verbatim>\<open>Process\<close> returns the fallback Result: the reason is
  \<open>FALLBACK_90PCT\<close> and the recommended drop time is 0.9 times the total duration, as a
  duration (whole nanoseconds).
\<close>

theorem pure_silence_fallback:
  assumes "NewDecisionEngine cfg rate0 = Some e"
    and "NewBeepDetector cfg rate = Some bd"
    and "\<forall>c \<in> set (chunks_of items). isSilent cfg c"
    and "allBeeps (BeepDetector_run an cfg bd (chunks_of items)) = []"
    and "\<forall>ev \<in> set (transcripts_of items). \<not> matches_end_phrase cfg (Text ev)"
  shows "\<exists>r. Process an cfg backend e (Inr (rate, items)) = Inr (Some r) \<and>
             Reason r = FALLBACK_90PCT \<and>
             RecommendedDropTime r =
               go_trunc (real_of_int (total_duration (chunks_of items)) * (9 / 10))"
proof -
  let ?stt = "IsEnabled cfg \<and> Connect cfg backend = None"
  let ?e0 = "e\<lparr> beepDetector := bd \<rparr>"
  let ?loop = "stream_loop an cfg ?stt ?e0 0 items"
  note fresh = NewDecisionEngine_Some [OF assms(1)]
  have ne0: "no_evidence ?e0" and thr0: "speechThreshold (silenceDetector ?e0) = SilenceThreshold cfg * 3"
    using fresh(3,4) by (simp_all add: no_evidence_def)
  have "allBeeps (BeepDetector_run an cfg (beepDetector ?e0) (chunks_of items)) = []"
    using assms(4) by simp
  from stream_loop_no_evidence [OF ne0 thr0 assms(3) this assms(5), of ?stt 0]
  have ne: "no_evidence (fst ?loop)"
    and last: "snd ?loop = total_duration (chunks_of items)"
    by (simp_all add: total_duration_def)
  from ne have nd: "\<not> decisionMade (fst ?loop)" by (simp add: no_evidence_def)
  have res: "decisionResult (makeFinalDecision (fst ?loop) (snd ?loop)) =
    Some \<lparr> RecommendedDropTime = go_trunc (real_of_int (snd ?loop) * (9 / 10)),
           Reason = FALLBACK_90PCT, Signals = signals (fst ?loop),
           Transcript = transcript (fst ?loop), DecisionMadeAt = snd ?loop, DeadAir = 0 \<rparr>"
    using ne by (simp add: makeFinalDecision_def no_evidence_def Let_def)
  have "Process an cfg backend e (Inr (rate, items)) =
          Inr (decisionResult (makeFinalDecision (fst ?loop) (snd ?loop)))"
    using nd by (simp add: Process_def Process_run_def assms(2) Let_def)
  then show ?thesis
    unfolding res by (simp add: last)
qed

theorem pure_silence_fallback_witness:
  "NewDecisionEngine cfg250k 256 = Some engine250 \<and>
   isSilent cfg250k (chunk250 0 0) \<and> isSilent cfg250k (chunk250 0 1) \<and>
   \<not> matches_end_phrase cfg250k ''Hi'' \<and>
   map_sum id (map_option (\<lambda>r. (Reason r, RecommendedDropTime r)))
     (Process marker_analyzer cfg250k Reachable engine250 (Inr (256, quiet_items))) =
     Inr (Some (FALLBACK_90PCT, 450000000))"
proof -
  have h3: "\<forall>c \<in> set (chunks_of quiet_items). isSilent cfg250k c"
    by (simp add: quiet_items_def isSilent_def chunk250_simps cfg250k_simps)
  have h4: "allBeeps (BeepDetector_run marker_analyzer cfg250k detector250
              (chunks_of quiet_items)) = []"
    by (simp add: quiet_items_def BeepDetector_Process_def isBeepLike_def
          BeepDetector_reset_def Let_def chunk250_simps cfg250k_simps detector250_def)
  have h5: "\<forall>ev \<in> set (transcripts_of quiet_items). \<not> matches_end_phrase cfg250k (Text ev)"
    by (simp add: quiet_items_def no_match_hi)
  have tot: "total_duration (chunks_of quiet_items) = 500000000"
    by (simp add: quiet_items_def total_duration_def chunk250_simps)
  from pure_silence_fallback [OF NewEngine250k New250k h3 h4 h5, of Reachable]
  obtain r where r: "Process marker_analyzer cfg250k Reachable engine250
                       (Inr (256, quiet_items)) = Inr (Some r)"
    and why: "Reason r = FALLBACK_90PCT"
    and drop: "RecommendedDropTime r =
                 go_trunc (real_of_int (total_duration (chunks_of quiet_items)) * (9 / 10))"
    by blast
  have "RecommendedDropTime r = 450000000"
    unfolding drop tot by (simp add: go_trunc_def)
  with r why h3 no_match_hi NewEngine250k show ?thesis
    by (simp add: quiet_items_def)
qed



section \<open>Dead air\<close>

lemma dead_air_state_value:
  "dead_air_state =
     \<lparr> beepDetector =
         \<lparr> sampleRate = 256, beepStartTime = 2000000000, beepActive = False,
           beepFrequency = 0, beepAmplitude = 0, consecutiveHits = 0, minHits = 5,
           allBeeps = [\<lparr> StartTime = 2000000000, EndTime = 3250000000,
                         Frequency = 1000, Amplitude = 1 / 10 \<rparr>] \<rparr>,
       silenceDetector =
         \<lparr> silenceStart = 3500000000, inSilence = True, hadSpeech = True,
           speechThreshold = 3 / 100, potentialEndTime = 250000000, confirmedEnd = True,
           lastSpeechTime = 3500000000, speechAfterSilence = 6 \<rparr>,
       phraseDetector = \<lparr> detected = None \<rparr>,
       signals =
         [\<lparr> Type = ''beep'', Timestamp_sig = 3250000000,
            Details = BeepDetails 1000 1250000000 \<rparr>,
          \<lparr> Type = ''silence'', Timestamp_sig = 3500000000,
            Details = SilenceDetails 500000000 \<rparr>],
       transcript = [],
       beepDetected = Some \<lparr> StartTime = 2000000000, EndTime = 3250000000,
                              Frequency = 1000, Amplitude = 1 / 10 \<rparr>,
       beepConfirmedAt = 3750000000, phraseFound = False, expectsBeep = False,
       phraseTime = 0, firstSilenceAt = 3500000000, decisionMade = False,
       decisionResult = None \<rparr>"
  by (simp add: dead_air_state_def dead_air_stream_def engine_eval)

text \<open>
  Claim C1, as amended. In the Result of a priority rule, \<open>DeadAir\<close> is the decision
  time minus \<open>firstSilenceAt\<close> whenever \<open>firstSilenceAt\<close> is positive (also when a
  recorded beep ended earlier); otherwise it is the decision time minus the end of the
  recorded beep, if there is one, and 0 if there is none. In the Result of the
  end-of-stream fallback, \<open>DeadAir\<close> is the total duration minus \<open>firstSilenceAt\<close> when
  \<open>firstSilenceAt\<close> is positive, and 0 when there is neither a confirmed silence nor a
  beep. In both, \<open>DecisionMadeAt\<close> is the time passed in.
\<close>

theorem dead_air_by_priority:
  "(\<not> decisionMade e \<and> decisionMade (checkForDecision cfg e t) \<longrightarrow>
      (\<exists>r. decisionResult (checkForDecision cfg e t) = Some r \<and> DecisionMadeAt r = t \<and>
           DeadAir r = (if firstSilenceAt e > 0 then t - firstSilenceAt e
                        else case beepDetected e of
                               Some b \<Rightarrow> t - EndTime b
                             | None \<Rightarrow> 0))) \<and>
   (\<exists>r. decisionResult (makeFinalDecision e t) = Some r \<and> DecisionMadeAt r = t \<and>
        (firstSilenceAt e > 0 \<longrightarrow> DeadAir r = t - firstSilenceAt e) \<and>
        (\<not> firstSilenceAt e > 0 \<and> beepDetected e = None \<longrightarrow> DeadAir r = 0))"
proof (rule conjI)
  show "\<not> decisionMade e \<and> decisionMade (checkForDecision cfg e t) \<longrightarrow>
      (\<exists>r. decisionResult (checkForDecision cfg e t) = Some r \<and> DecisionMadeAt r = t \<and>
           DeadAir r = (if firstSilenceAt e > 0 then t - firstSilenceAt e
                        else case beepDetected e of
                               Some b \<Rightarrow> t - EndTime b
                             | None \<Rightarrow> 0))"
    by (auto simp: checkForDecision_def rule1_def split: option.splits)
  show "\<exists>r. decisionResult (makeFinalDecision e t) = Some r \<and> DecisionMadeAt r = t \<and>
        (firstSilenceAt e > 0 \<longrightarrow> DeadAir r = t - firstSilenceAt e) \<and>
        (\<not> firstSilenceAt e > 0 \<and> beepDetected e = None \<longrightarrow> DeadAir r = 0)"
    by (simp add: makeFinalDecision_def Let_def)
qed

theorem dead_air_by_priority_witness:
  "\<not> decisionMade dead_air_state \<and>
   decisionMade (checkForDecision cfg250 dead_air_state 4000000000) \<and>
   firstSilenceAt dead_air_state = 3500000000 \<and>
   map_option DeadAir (decisionResult (checkForDecision cfg250 dead_air_state 4000000000))
     = Some 500000000 \<and>
   map_option DeadAir (decisionResult (makeFinalDecision dead_air_state 4000000000))
     = Some 500000000"
proof -
  have h1: "\<not> decisionMade dead_air_state"
    by (simp add: dead_air_state_value)
  have h2: "decisionMade (checkForDecision cfg250 dead_air_state 4000000000)"
    unfolding dead_air_state_value by (simp add: engine_eval)
  have h3: "firstSilenceAt dead_air_state = 3500000000"
    by (simp add: dead_air_state_value)
  from dead_air_by_priority [of dead_air_state cfg250 4000000000] h1 h2
  obtain r r' where
    r: "decisionResult (checkForDecision cfg250 dead_air_state 4000000000) = Some r"
      "DeadAir r = (if firstSilenceAt dead_air_state > 0
                    then 4000000000 - firstSilenceAt dead_air_state
                    else case beepDetected dead_air_state of
                           Some b \<Rightarrow> 4000000000 - EndTime b
                         | None \<Rightarrow> 0)"
    and r': "decisionResult (makeFinalDecision dead_air_state 4000000000) = Some r'"
      "firstSilenceAt dead_air_state > 0 \<longrightarrow>
         DeadAir r' = 4000000000 - firstSilenceAt dead_air_state"
    by blast
  from r(2) r'(2) have "DeadAir r = 500000000" "DeadAir r' = 500000000"
    by (simp_all add: h3)
  with h1 h2 h3 r(1) r'(1) show ?thesis by simp
qed

text \<open>
  The claim as stated (the earlier of the two times) fails on \<open>dead_air_stream\<close>: rule 1
  decides at 4.0 s, the beep ended at 3.25 s and the confirmed silence started at 3.5 s;
  the Result has a dead air of 0.5 s where the claim gives 0.75 s.
\<close>

theorem dead_air_earlier_counterexample:
  "Process marker_analyzer cfg250 Reachable engine250 (Inr (256, map Chunk dead_air_stream)) =
     Inr (Some \<lparr> RecommendedDropTime = 3300000000, Reason = BEEP_CONFIRMED,
                  Signals =
                    [\<lparr> Type = ''beep'', Timestamp_sig = 3250000000,
                       Details = BeepDetails 1000 1250000000 \<rparr>,
                     \<lparr> Type = ''silence'', Timestamp_sig = 3500000000,
                       Details = SilenceDetails 500000000 \<rparr>],
                  Transcript = [], DecisionMadeAt = 4000000000, DeadAir = 500000000 \<rparr>) \<and>
   firstSilenceAt dead_air_state = 3500000000 \<and>
   map_option EndTime (beepDetected dead_air_state) = Some 3250000000 \<and>
   4000000000 - min 3500000000 3250000000 = (750000000 :: int)"
proof -
  have "Process marker_analyzer cfg250 Reachable engine250
          (Inr (256, map Chunk dead_air_stream)) =
     Inr (Some \<lparr> RecommendedDropTime = 3300000000, Reason = BEEP_CONFIRMED,
                  Signals =
                    [\<lparr> Type = ''beep'', Timestamp_sig = 3250000000,
                       Details = BeepDetails 1000 1250000000 \<rparr>,
                     \<lparr> Type = ''silence'', Timestamp_sig = 3500000000,
                       Details = SilenceDetails 500000000 \<rparr>],
                  Transcript = [], DecisionMadeAt = 4000000000, DeadAir = 500000000 \<rparr>)"
    by (simp add: dead_air_stream_def Process_def Process_run_def New250 IsEnabled_def
          Connect_def engine_eval)
  then show ?thesis
    by (simp add: dead_air_state_value)
qed

text \<open>
  The fallback Result takes no beep into account: on a stream that ends 250 ms after a
  tone, the reason is \<open>BEEP_AT_END\<close> and the dead air is 0.
\<close>

lemma fallback_ignores_beep:
  "Process marker_analyzer cfg250 Reachable engine250
     (Inr (256, map Chunk beep_at_end_stream)) =
     Inr (Some \<lparr> RecommendedDropTime = 1300000000, Reason = BEEP_AT_END,
                  Signals =
                    [\<lparr> Type = ''beep'', Timestamp_sig = 1250000000,
                       Details = BeepDetails 1000 1250000000 \<rparr>],
                  Transcript = [], DecisionMadeAt = 1500000000, DeadAir = 0 \<rparr>)"
  by (simp add: beep_at_end_stream_def Process_def Process_run_def New250 IsEnabled_def
        Connect_def engine_eval)

section \<open>The loop after a decision\<close>

text \<open>Once a decision is made, the Result is not replaced by the rest of the loop.\<close>

lemma decision_is_final:
  "decisionMade e \<Longrightarrow>
     decisionResult (fst (stream_loop an cfg stt e t xs)) = decisionResult e"
proof (induction xs arbitrary: e t)
  case Nil
  then show ?case by simp
next
  case (Cons x xs)
  have d: "decisionResult (drain cfg stt e' ys) = decisionResult e'" for e' ys
    by (induction cfg stt e' ys rule: drain.induct) (simp_all add: processTranscript_fields)
  show ?case
  proof (cases x)
    case (Chunk c)
    with Cons.prems show ?thesis
      by (simp add: Let_def processChunk_fields d)
  next
    case (TranscriptArrives ev)
    with Cons.IH [of "if stt then processTranscript cfg e ev else e" t] Cons.prems
    show ?thesis
      by (simp add: processTranscript_fields)
  qed
qed

text \<open>
  With the decision already made, the loop still runs \<^verbatim>\<open>processChunk\<close> on the next
  chunk and only then leaves; the chunks after that one are not processed.
\<close>

lemma loop_after_decision:
  "decisionMade e \<Longrightarrow>
     stream_loop an cfg stt e t (Chunk c # xs) =
       (drain cfg stt (processChunk an cfg e c) xs, Timestamp c + Duration c)"
  by (simp add: Let_def processChunk_fields)

lemma engine250_beepDetector: "engine250\<lparr> beepDetector := detector250 \<rparr> = engine250"
  by (simp add: engine250_def)

lemma silence_timeout_state:
  "stream_loop marker_analyzer cfg250 False engine250 0 (map Chunk silence_timeout_stream) =
     (\<lparr> beepDetector = detector250,
        silenceDetector =
          \<lparr> silenceStart = 250000000, inSilence = True, hadSpeech = True,
            speechThreshold = 3 / 100, potentialEndTime = 250000000, confirmedEnd = True,
            lastSpeechTime = 250000000, speechAfterSilence = 0 \<rparr>,
        phraseDetector = \<lparr> detected = None \<rparr>,
        signals = [\<lparr> Type = ''silence'', Timestamp_sig = 250000000,
                     Details = SilenceDetails 2000000000 \<rparr>],
        transcript = [], beepDetected = None, beepConfirmedAt = 0,
        phraseFound = False, expectsBeep = False, phraseTime = 0,
        firstSilenceAt = 250000000, decisionMade = True,
        decisionResult =
          Some \<lparr> RecommendedDropTime = 450000000, Reason = SILENCE_TIMEOUT 2000000000,
                 Signals = [\<lparr> Type = ''silence'', Timestamp_sig = 250000000,
                              Details = SilenceDetails 2000000000 \<rparr>],
                 Transcript = [], DecisionMadeAt = 2250000000, DeadAir = 2000000000 \<rparr> \<rparr>,
      2250000000)"
  by (simp add: silence_timeout_stream_def engine_eval)

lemma silence_timeout_state_two_more:
  "stream_loop marker_analyzer cfg250 False engine250 0
     (map Chunk (silence_timeout_stream @ [chunk250 (1/2) 9, chunk250 0 10])) =
     (\<lparr> beepDetector = detector250,
        silenceDetector =
          \<lparr> silenceStart = 250000000, inSilence = False, hadSpeech = True,
            speechThreshold = 3 / 100, potentialEndTime = 250000000, confirmedEnd = True,
            lastSpeechTime = 2500000000, speechAfterSilence = 0 \<rparr>,
        phraseDetector = \<lparr> detected = None \<rparr>,
        signals = [\<lparr> Type = ''silence'', Timestamp_sig = 250000000,
                     Details = SilenceDetails 2000000000 \<rparr>],
        transcript = [], beepDetected = None, beepConfirmedAt = 0,
        phraseFound = False, expectsBeep = False, phraseTime = 0,
        firstSilenceAt = 250000000, decisionMade = True,
        decisionResult =
          Some \<lparr> RecommendedDropTime = 450000000, Reason = SILENCE_TIMEOUT 2000000000,
                 Signals = [\<lparr> Type = ''silence'', Timestamp_sig = 250000000,
                              Details = SilenceDetails 2000000000 \<rparr>],
                 Transcript = [], DecisionMadeAt = 2250000000, DeadAir = 2000000000 \<rparr> \<rparr>,
      2500000000)"
  by (simp add: silence_timeout_stream_def engine_eval)

text \<open>
  Claim C3, evaluated on a stream that goes on after the decision. Rule 4 fires at the end
  of the ninth chunk (2.25 s) of \<open>silence_timeout_stream\<close>: the silence detector is then
  in silence and its last speech ended at 0.25 s. With a chunk of speech and a silent chunk
  appended, the Result is the same, but the silence detector has processed the chunk of
  speech (its last speech ended at 2.5 s and it is no longer in silence): the loop tests
  \<^verbatim>\<open>decisionMade\<close> only after \<^verbatim>\<open>processChunk\<close> has run on the next chunk. The silent
  chunk after it is not processed.
\<close>

theorem chunk_processed_after_decision:
  "decisionMade (fst (stream_loop marker_analyzer cfg250 False engine250 0
                        (map Chunk silence_timeout_stream))) \<and>
   lastSpeechTime (silenceDetector (fst (stream_loop marker_analyzer cfg250 False engine250 0
                        (map Chunk silence_timeout_stream)))) = 250000000 \<and>
   inSilence (silenceDetector (fst (stream_loop marker_analyzer cfg250 False engine250 0
                        (map Chunk silence_timeout_stream)))) \<and>
   lastSpeechTime (silenceDetector (fst (stream_loop marker_analyzer cfg250 False engine250 0
                        (map Chunk (silence_timeout_stream @ [chunk250 (1/2) 9, chunk250 0 10])))))
     = 2500000000 \<and>
   \<not> inSilence (silenceDetector (fst (stream_loop marker_analyzer cfg250 False engine250 0
                        (map Chunk (silence_timeout_stream @ [chunk250 (1/2) 9, chunk250 0 10]))))) \<and>
   Process marker_analyzer cfg250 Reachable engine250
     (Inr (256, map Chunk (silence_timeout_stream @ [chunk250 (1/2) 9, chunk250 0 10]))) =
     Inr (Some \<lparr> RecommendedDropTime = 450000000, Reason = SILENCE_TIMEOUT 2000000000,
                  Signals = [\<lparr> Type = ''silence'', Timestamp_sig = 250000000,
                               Details = SilenceDetails 2000000000 \<rparr>],
                  Transcript = [], DecisionMadeAt = 2250000000, DeadAir = 2000000000 \<rparr>)"
  unfolding Process_def Process_run_def
  by (simp add: New250 IsEnabled_def cfg250_simps engine250_beepDetector Let_def
        silence_timeout_state silence_timeout_state_two_more del: map_append)

section \<open>Properties of the WAV reader\<close>











end
